theory Spec2Isabelle
  imports Complex_Main "HOL-Library.Word" "HOL-Library.Code_Target_Numeral"
begin

section \<open>Python values used by \<^verbatim>\<open>generate_html.py\<close>\<close>

text \<open>
  A Python \<^verbatim>\<open>str\<close> is a sequence of Unicode code points, and \<^verbatim>\<open>len\<close> counts code
  points.  A code point is a natural number; \<open>u\<close> turns an ASCII literal into such a string.
\<close>

type_synonym ustring = "nat list"

definition u :: "string \<Rightarrow> ustring" where
  "u s = map of_char s"

text \<open>The exceptions that the modelled functions can raise.\<close>

datatype py_error = ValueError | TypeError | KeyError | UnicodeDecodeError | UnicodeEncodeError

text \<open>
  Numbers are Python ints or floats.  The type \<open>'f\<close> stands for the IEEE double values; no
  property of floating-point arithmetic is assumed anywhere, its operations are fields of the
  library record below.
\<close>

datatype 'f pynum = PInt int | PFloat 'f

text \<open>The values that \<^verbatim>\<open>json.loads\<close> returns; an object keeps its keys in insertion order.\<close>

datatype 'f json =
    JNull
  | JBool bool
  | JNum "'f pynum"
  | JStr ustring
  | JArr "'f json list"
  | JObj "(ustring \<times> 'f json) list"

text \<open>A step dictionary \<^verbatim>\<open>{'name': .., 'duration': .., 'status': ..}\<close>.\<close>

record 'f step =
  step_name :: ustring
  step_duration :: 'f
  step_status :: ustring

text \<open>
  The \<^verbatim>\<open>info\<close> dictionary.  Every key may be missing, so every field is optional;
  \<^verbatim>\<open>d.get(k, default)\<close> is a case distinction on the field.
\<close>

record 'f test_info =
  name :: "ustring option"
  name_heb :: "ustring option"
  model :: "ustring option"
  user_request :: "ustring option"
  activity_details :: "(ustring \<times> 'f json) list option"
  final_output :: "ustring option"
  steps :: "'f step list option"
  total_duration :: "'f pynum option"
  filename :: "ustring option"
  status :: "ustring option"

definition empty_info :: "'f test_info" where
  "empty_info = \<lparr> name = None, name_heb = None, model = None, user_request = None,
     activity_details = None, final_output = None, steps = None, total_duration = None,
     filename = None, status = None \<rparr>"

text \<open>
  What the program takes from the Python runtime and from the \<^verbatim>\<open>markdown\<close> package, as
  parameters: the Unicode tables beyond ASCII behind \<^verbatim>\<open>\w\<close> and \<^verbatim>\<open>\d\<close>, the value of
  \<^verbatim>\<open>float(s)\<close> on a literal that it accepts, the built-in \<^verbatim>\<open>sum\<close> on numbers, true
  division by an int, the format specification \<^verbatim>\<open>.1f\<close>, \<^verbatim>\<open>json.loads\<close> on a text that
  starts with a brace (the object it returns, \<open>None\<close> when it raises), \<^verbatim>\<open>str\<close> on a float, list
  or dict, and \<^verbatim>\<open>markdown.markdown\<close> with the
  extensions \<^verbatim>\<open>tables\<close> and \<^verbatim>\<open>fenced_code\<close> (\<open>None\<close> when it raises).
\<close>

record 'f pylib =
  uni_alnum :: "nat \<Rightarrow> bool"
  uni_decimal :: "nat \<Rightarrow> bool"
  float_of_str :: "ustring \<Rightarrow> 'f"
  py_sum :: "'f pynum list \<Rightarrow> 'f pynum"
  truediv :: "'f pynum \<Rightarrow> int \<Rightarrow> 'f"
  format_1f :: "'f \<Rightarrow> ustring"
  json_loads :: "ustring \<Rightarrow> (ustring \<times> 'f json) list option"
  py_repr :: "'f json \<Rightarrow> ustring"
  markdown :: "ustring \<Rightarrow> ustring option"

text \<open>\<^verbatim>\<open>str(n)\<close> for an int.\<close>

fun str_nat :: "nat \<Rightarrow> ustring" where
  "str_nat n = (if n < 10 then [48 + n] else str_nat (n div 10) @ [48 + n mod 10])"

declare str_nat.simps [simp del]

definition str_int :: "int \<Rightarrow> ustring" where
  "str_int i = (if i < 0 then 45 # str_nat (nat (- i)) else str_nat (nat i))"

text \<open>\<^verbatim>\<open>str(v)\<close>, as an f-string applies it to a value taken from the JSON object.\<close>

definition fstr :: "'f pylib \<Rightarrow> 'f json \<Rightarrow> ustring" where
  "fstr L v = (case v of
       JStr s \<Rightarrow> s
     | JNull \<Rightarrow> u ''None''
     | JBool b \<Rightarrow> (if b then u ''True'' else u ''False'')
     | JNum (PInt i) \<Rightarrow> str_int i
     | _ \<Rightarrow> py_repr L v)"

text \<open>\<^verbatim>\<open>d.get(k, default)\<close> on a JSON object.\<close>

definition obj_get :: "(ustring \<times> 'f json) list \<Rightarrow> ustring \<Rightarrow> 'f json \<Rightarrow> 'f json" where
  "obj_get d k dflt = (case map_of d k of Some v \<Rightarrow> v | None \<Rightarrow> dflt)"

text \<open>
  \<^verbatim>\<open>TABLE.get(key, default)\<close> on one of the translation tables, whose keys are strings:
  a list or dict as key is unhashable and raises \<^verbatim>\<open>TypeError\<close>, any other value that is
  not a string is no key of the table.
\<close>

definition table_get :: "(ustring \<times> ustring) list \<Rightarrow> 'f json \<Rightarrow> 'f json \<Rightarrow> py_error + 'f json" where
  "table_get table key dflt = (case key of
       JArr _ \<Rightarrow> Inl TypeError
     | JObj _ \<Rightarrow> Inl TypeError
     | JStr s \<Rightarrow> Inr (case map_of table s of Some v \<Rightarrow> JStr v | None \<Rightarrow> dflt)
     | _ \<Rightarrow> Inr dflt)"

text \<open>\<^verbatim>\<open>sep.join(v)\<close>: a string is iterated by characters, a dict by keys.\<close>

fun join :: "ustring \<Rightarrow> ustring list \<Rightarrow> ustring" where
  "join sep [] = []"
| "join sep [x] = x"
| "join sep (x # y # ys) = x @ sep @ join sep (y # ys)"

fun the_JStr :: "'f json \<Rightarrow> ustring option" where
  "the_JStr (JStr s) = Some s"
| "the_JStr _ = None"

definition join_json :: "ustring \<Rightarrow> 'f json \<Rightarrow> py_error + ustring" where
  "join_json sep v = (case v of
       JArr xs \<Rightarrow> (if list_all (\<lambda>x. the_JStr x \<noteq> None) xs
                   then Inr (join sep (map (\<lambda>x. the (the_JStr x)) xs)) else Inl TypeError)
     | JStr s \<Rightarrow> Inr (join sep (map (\<lambda>c. [c]) s))
     | JObj kvs \<Rightarrow> Inr (join sep (map fst kvs))
     | _ \<Rightarrow> Inl TypeError)"

text \<open>
  \<^verbatim>\<open>datetime.now()\<close> is an input of the page generators; \<^verbatim>\<open>strftime("%d/%m/%Y")\<close> prints
  the day and the month with two digits and the year with four.
\<close>

record datetime =
  year :: nat
  month :: nat
  day :: nat
  hour :: nat
  minute :: nat
  second :: nat

definition zero_pad :: "nat \<Rightarrow> ustring \<Rightarrow> ustring" where
  "zero_pad w s = replicate (w - length s) 48 @ s"

definition strftime_dmy :: "datetime \<Rightarrow> ustring" where
  "strftime_dmy d = zero_pad 2 (str_nat (day d)) @ u ''/'' @ zero_pad 2 (str_nat (month d))
     @ u ''/'' @ zero_pad 4 (str_nat (year d))"

section \<open>The translation tables and the page template\<close>

definition TEST_NAMES_HEB :: "(ustring \<times> ustring) list" where
  \<open>TEST_NAMES_HEB = [
    (u ''Chanukah_Light_Miracle'',
      [1495, 1504, 1493, 1499, 1492] @ u '' - '' @ [1504, 1505] @ u '' '' @ [1492, 1488, 1493, 1512]),
    (u ''Honesty_Truth_Teen'',
      [1488, 1502, 1514] @ u '' '' @ [1493, 1497, 1493, 1513, 1512] @ u '' '' @ [1500, 1504, 1493, 1506, 1512]),
    (u ''Talmud_Wisdom_Stories'',
      [1505, 1497, 1508, 1493, 1512, 1497] @ u '' '' @ [1495, 1499, 1502, 1492] @ u '' '' @ [1502, 1492, 1514, 1500, 1502, 1493, 1491]),
    (u ''Environment_Jewish_View'',
      [1488, 1497, 1499, 1493, 1514] @ u '' '' @ [1492, 1505, 1489, 1497, 1489, 1492] @ u '' - '' @ [1502, 1489, 1496] @ u '' '' @ [1497, 1492, 1493, 1491, 1497]),
    (u ''Teamwork_Games'',
      [1502, 1513, 1495, 1511, 1497] @ u '' '' @ [1506, 1489, 1493, 1491, 1514] @ u '' '' @ [1510, 1493, 1493, 1514]),
    (u ''Purim_Hidden_Revealed'',
      [1508, 1493, 1512, 1497, 1501] @ u '' - '' @ [1492, 1504, 1505, 1514, 1512] @ u '' '' @ [1493, 1492, 1504, 1490, 1500, 1492]),
    (u ''Sukkot_Joy_Hospitality'',
      [1505, 1493, 1499, 1493, 1514] @ u '' - '' @ [1513, 1502, 1495, 1492] @ u '' '' @ [1493, 1492, 1499, 1504, 1505, 1514] @ u '' '' @ [1488, 1493, 1512, 1495, 1497, 1501]),
    (u ''Kibud_Av_VaEm'',
      [1499, 1497, 1489, 1493, 1491] @ u '' '' @ [1488, 1489] @ u '' '' @ [1493, 1488, 1501]),
    (u ''Jewish_Heroes_Stories'',
      [1505, 1497, 1508, 1493, 1512, 1497] @ u '' '' @ [1490, 1489, 1493, 1512, 1492] @ u '' '' @ [1497, 1492, 1493, 1491, 1497, 1514]),
    (u ''Leadership_Challenge'',
      [1488, 1514, 1490, 1512] @ u '' '' @ [1502, 1504, 1492, 1497, 1490, 1493, 1514])]\<close>

definition ACTIVITY_TYPES_HEB :: "(ustring \<times> ustring) list" where
  \<open>ACTIVITY_TYPES_HEB = [
    (u ''religious_holiday'',
      [1495, 1490] @ u '' '' @ [1491, 1514, 1497]),
    (u ''values_education'',
      [1495, 1497, 1504, 1493, 1498] @ u '' '' @ [1506, 1512, 1499, 1497]),
    (u ''story_session'',
      [1502, 1508, 1490, 1513] @ u '' '' @ [1505, 1497, 1508, 1493, 1512, 1497, 1501]),
    (u ''discussion'',
      [1491, 1497, 1493, 1503]),
    (u ''game_based'',
      [1502, 1513, 1495, 1511, 1497, 1501]),
    (u ''combined'',
      [1502, 1513, 1493, 1500, 1489])]\<close>

definition AGE_GROUPS_HEB :: "(ustring \<times> ustring) list" where
  \<open>AGE_GROUPS_HEB = [
    (u ''middle'',
      [1489, 1497, 1504, 1493, 1504, 1497] @ u '' (10-13)''),
    (u ''teen'',
      [1504, 1493, 1506, 1512] @ u '' (14-16)'')]\<close>

definition HTML_TEMPLATE_0 :: ustring where
  \<open>HTML_TEMPLATE_0 =
   u ''<!DOCTYPE html>\<newline>'' @
   u ''<html lang="he" dir="rtl">\<newline>'' @
   u ''<head>\<newline>'' @
   u ''    <meta charset="UTF-8">\<newline>'' @
   u ''    <meta name="viewport" content="width=device-width, initial-scale=1.0">\<newline>'' @
   u ''    <title>''\<close>

definition HTML_TEMPLATE_1 :: ustring where
  \<open>HTML_TEMPLATE_1 =
   u ''</title>\<newline>'' @
   u ''    <link href="https://fonts.googleapis.com/css2?family=Heebo:wght@300;400;500;600;700&display=swap" rel="stylesheet">\<newline>'' @
   u ''    <style>\<newline>'' @
   u ''        :root {\<newline>'' @
   u ''            --primary: #2563eb;\<newline>'' @
   u ''            --primary-dark: #1d4ed8;\<newline>'' @
   u ''            --secondary: #64748b;\<newline>'' @
   u ''            --success: #22c55e;\<newline>'' @
   u ''            --danger: #ef4444;\<newline>'' @
   u ''            --warning: #f59e0b;\<newline>'' @
   u ''            --bg: #f8fafc;\<newline>'' @
   u ''            --card-bg: #ffffff;\<newline>'' @
   u ''            --text: #1e293b;\<newline>'' @
   u ''            --text-muted: #64748b;\<newline>'' @
   u ''            --border: #e2e8f0;\<newline>'' @
   u ''        }\<newline>'' @
   u ''        \<newline>'' @
   u ''        * {\<newline>'' @
   u ''            margin: 0;\<newline>'' @
   u ''            padding: 0;\<newline>'' @
   u ''            box-sizing: border-box;\<newline>'' @
   u ''        }\<newline>'' @
   u ''        \<newline>'' @
   u ''        body {\<newline>'' @
   u ''            font-family: 'Heebo', sans-serif;\<newline>'' @
   u ''            background: var(--bg);\<newline>'' @
   u ''            color: var(--text);\<newline>'' @
   u ''            line-height: 1.7;\<newline>'' @
   u ''            direction: rtl;\<newline>'' @
   u ''        }\<newline>'' @
   u ''        \<newline>'' @
   u ''        .container {\<newline>'' @
   u ''            max-width: 1200px;\<newline>'' @
   u ''            margin: 0 auto;\<newline>'' @
   u ''            padding: 2rem;\<newline>'' @
   u ''        }\<newline>'' @
   u ''        \<newline>'' @
   u ''        header {\<newline>'' @
   u ''            background: linear-gradient(135deg, var(--primary) 0%, var(--primary-dark) 100%);\<newline>'' @
   u ''            color: white;\<newline>'' @
   u ''            padding: 3rem 2rem;\<newline>'' @
   u ''            margin-bottom: 2rem;\<newline>'' @
   u ''            border-radius: 0 0 2rem 2rem;\<newline>'' @
   u ''            box-shadow: 0 4px 20px rgba(37, 99, 235, 0.3);\<newline>'' @
   u ''        }\<newline>'' @
   u ''        \<newline>'' @
   u ''        header h1 {\<newline>'' @
   u ''            font-size: 2.5rem;\<newline>'' @
   u ''            font-weight: 700;\<newline>'' @
   u ''            margin-bottom: 0.5rem;\<newline>'' @
   u ''        }\<newline>'' @
   u ''        \<newline>'' @
   u ''        header p {\<newline>'' @
   u ''            opacity: 0.9;\<newline>'' @
   u ''            font-size: 1.1rem;\<newline>'' @
   u ''        }\<newline>'' @
   u ''        \<newline>'' @
   u ''        .breadcrumb {\<newline>'' @
   u ''            margin-bottom: 1.5rem;\<newline>'' @
   u ''        }\<newline>'' @
   u ''        \<newline>'' @
   u ''        .breadcrumb a {\<newline>'' @
   u ''            color: var(--primary);\<newline>'' @
   u ''            text-decoration: none;\<newline>'' @
   u ''            font-weight: 500;\<newline>'' @
   u ''        }\<newline>'' @
   u ''        \<newline>'' @
   u ''        .breadcrumb a:hover {\<newline>'' @
   u ''            text-decoration: underline;\<newline>'' @
   u ''        }\<newline>'' @
   u ''        \<newline>'' @
   u ''        .card {\<newline>'' @
   u ''            background: var(--card-bg);\<newline>'' @
   u ''            border-radius: 1rem;\<newline>'' @
   u ''            padding: 2rem;\<newline>'' @
   u ''            margin-bottom: 1.5rem;\<newline>'' @
   u ''            box-shadow: 0 2px 10px rgba(0,0,0,0.05);\<newline>'' @
   u ''            border: 1px solid var(--border);\<newline>'' @
   u ''        }\<newline>'' @
   u ''        \<newline>'' @
   u ''        .card h2 {\<newline>'' @
   u ''            color: var(--primary);\<newline>'' @
   u ''            font-size: 1.5rem;\<newline>'' @
   u ''            margin-bottom: 1rem;\<newline>'' @
   u ''            padding-bottom: 0.5rem;\<newline>'' @
   u ''            border-bottom: 2px solid var(--border);\<newline>'' @
   u ''        }\<newline>'' @
   u ''        \<newline>'' @
   u ''        .card h3 {\<newline>'' @
   u ''            color: var(--text);\<newline>'' @
   u ''            font-size: 1.2rem;\<newline>'' @
   u ''            margin: 1.5rem 0 0.75rem;\<newline>'' @
   u ''        }\<newline>'' @
   u ''        \<newline>'' @
   u ''        .stats-grid {\<newline>'' @
   u ''            display: grid;\<newline>'' @
   u ''            grid-template-columns: repeat(auto-fit, minmax(200px, 1fr));\<newline>'' @
   u ''            gap: 1rem;\<newline>'' @
   u ''            margin-bottom: 2rem;\<newline>'' @
   u ''        }\<newline>'' @
   u ''        \<newline>'' @
   u ''        .stat-card {\<newline>'' @
   u ''            background: var(--card-bg);\<newline>'' @
   u ''            border-radius: 1rem;\<newline>'' @
   u ''            padding: 1.5rem;\<newline>'' @
   u ''            text-align: center;\<newline>'' @
   u ''            border: 1px solid var(--border);\<newline>'' @
   u ''            transition: transform 0.2s, box-shadow 0.2s;\<newline>'' @
   u ''        }\<newline>'' @
   u ''        \<newline>'' @
   u ''        .stat-card:hover {\<newline>'' @
   u ''            transform: translateY(-2px);\<newline>'' @
   u ''            box-shadow: 0 4px 15px rgba(0,0,0,0.1);\<newline>'' @
   u ''        }\<newline>'' @
   u ''        \<newline>'' @
   u ''        .stat-value {\<newline>'' @
   u ''            font-size: 2rem;\<newline>'' @
   u ''            font-weight: 700;\<newline>'' @
   u ''            color: var(--primary);\<newline>'' @
   u ''        }\<newline>'' @
   u ''        \<newline>'' @
   u ''        .stat-label {\<newline>'' @
   u ''            color: var(--text-muted);\<newline>'' @
   u ''            font-size: 0.9rem;\<newline>'' @
   u ''            margin-top: 0.25rem;\<newline>'' @
   u ''        }\<newline>'' @
   u ''        \<newline>'' @
   u ''        .test-list {\<newline>'' @
   u ''            display: grid;\<newline>'' @
   u ''            gap: 1rem;\<newline>'' @
   u ''        }\<newline>'' @
   u ''        \<newline>'' @
   u ''        .test-item {\<newline>'' @
   u ''            display: flex;\<newline>'' @
   u ''            align-items: center;\<newline>'' @
   u ''            padding: 1.25rem;\<newline>'' @
   u ''            background: var(--card-bg);\<newline>'' @
   u ''            border-radius: 0.75rem;\<newline>'' @
   u ''            border: 1px solid var(--border);\<newline>'' @
   u ''            text-decoration: none;\<newline>'' @
   u ''            color: var(--text);\<newline>'' @
   u ''            transition: all 0.2s;\<newline>'' @
   u ''        }\<newline>'' @
   u ''        \<newline>'' @
   u ''        .test-item:hover {\<newline>'' @
   u ''            border-color: var(--primary);\<newline>'' @
   u ''            box-shadow: 0 4px 15px rgba(37, 99, 235, 0.15);\<newline>'' @
   u ''            transform: translateX(-4px);\<newline>'' @
   u ''        }\<newline>'' @
   u ''        \<newline>'' @
   u ''        .test-status {\<newline>'' @
   u ''            width: 40px;\<newline>'' @
   u ''            height: 40px;\<newline>'' @
   u ''            border-radius: 50%;\<newline>'' @
   u ''            display: flex;\<newline>'' @
   u ''            align-items: center;\<newline>'' @
   u ''            justify-content: center;\<newline>'' @
   u ''            margin-left: 1rem;\<newline>'' @
   u ''            font-size: 1.25rem;\<newline>'' @
   u ''        }\<newline>'' @
   u ''        \<newline>'' @
   u ''        .test-status.pass {\<newline>'' @
   u ''            background: #dcfce7;\<newline>'' @
   u ''            color: var(--success);\<newline>'' @
   u ''        }\<newline>'' @
   u ''        \<newline>'' @
   u ''        .test-status.fail {\<newline>'' @
   u ''            background: #fee2e2;\<newline>'' @
   u ''            color: var(--danger);\<newline>'' @
   u ''        }\<newline>'' @
   u ''        \<newline>'' @
   u ''        .test-info {\<newline>'' @
   u ''            flex: 1;\<newline>'' @
   u ''        }\<newline>'' @
   u ''        \<newline>'' @
   u ''        .test-name {\<newline>'' @
   u ''            font-weight: 600;\<newline>'' @
   u ''            font-size: 1.1rem;\<newline>'' @
   u ''            margin-bottom: 0.25rem;\<newline>'' @
   u ''        }\<newline>'' @
   u ''        \<newline>'' @
   u ''        .test-meta {\<newline>'' @
   u ''            color: var(--text-muted);\<newline>'' @
   u ''            font-size: 0.85rem;\<newline>'' @
   u ''        }\<newline>'' @
   u ''        \<newline>'' @
   u ''        .test-duration {\<newline>'' @
   u ''            color: var(--secondary);\<newline>'' @
   u ''            font-weight: 500;\<newline>'' @
   u ''        }\<newline>'' @
   u ''        \<newline>'' @
   u ''        .badge {\<newline>'' @
   u ''            display: inline-block;\<newline>'' @
   u ''            padding: 0.25rem 0.75rem;\<newline>'' @
   u ''            border-radius: 9999px;\<newline>'' @
   u ''            font-size: 0.8rem;\<newline>'' @
   u ''            font-weight: 500;\<newline>'' @
   u ''            margin-left: 0.5rem;\<newline>'' @
   u ''        }\<newline>'' @
   u ''        \<newline>'' @
   u ''        .badge-primary {\<newline>'' @
   u ''            background: #dbeafe;\<newline>'' @
   u ''            color: var(--primary);\<newline>'' @
   u ''        }\<newline>'' @
   u ''        \<newline>'' @
   u ''        .badge-success {\<newline>'' @
   u ''            background: #dcfce7;\<newline>'' @
   u ''            color: var(--success);\<newline>'' @
   u ''        }\<newline>'' @
   u ''        \<newline>'' @
   u ''        .badge-danger {\<newline>'' @
   u ''            background: #fee2e2;\<newline>'' @
   u ''            color: var(--danger);\<newline>'' @
   u ''        }\<newline>'' @
   u ''        \<newline>'' @
   u ''        table {\<newline>'' @
   u ''            width: 100%;\<newline>'' @
   u ''            border-collapse: collapse;\<newline>'' @
   u ''            margin: 1rem 0;\<newline>'' @
   u ''        }\<newline>'' @
   u ''        \<newline>'' @
   u ''        th, td {\<newline>'' @
   u ''            padding: 0.75rem 1rem;\<newline>'' @
   u ''            text-align: right;\<newline>'' @
   u ''            border-bottom: 1px solid var(--border);\<newline>'' @
   u ''        }\<newline>'' @
   u ''        \<newline>'' @
   u ''        th {\<newline>'' @
   u ''            background: var(--bg);\<newline>'' @
   u ''            font-weight: 600;\<newline>'' @
   u ''            color: var(--text-muted);\<newline>'' @
   u ''        }\<newline>'' @
   u ''        \<newline>'' @
   u ''        tr:hover {\<newline>'' @
   u ''            background: var(--bg);\<newline>'' @
   u ''        }\<newline>'' @
   u ''        \<newline>'' @
   u ''        .content-section {\<newline>'' @
   u ''            margin: 1.5rem 0;\<newline>'' @
   u ''            padding: 1.5rem;\<newline>'' @
   u ''            background: var(--bg);\<newline>'' @
   u ''            border-radius: 0.75rem;\<newline>'' @
   u ''            border-right: 4px solid var(--primary);\<newline>'' @
   u ''        }\<newline>'' @
   u ''        \<newline>'' @
   u ''        .content-section h4 {\<newline>'' @
   u ''            color: var(--primary);\<newline>'' @
   u ''            margin-bottom: 0.75rem;\<newline>'' @
   u ''        }\<newline>'' @
   u ''        \<newline>'' @
   u ''        pre {\<newline>'' @
   u ''            background: #1e293b;\<newline>'' @
   u ''            color: #e2e8f0;\<newline>'' @
   u ''            padding: 1rem;\<newline>'' @
   u ''            border-radius: 0.5rem;\<newline>'' @
   u ''            overflow-x: auto;\<newline>'' @
   u ''            direction: ltr;\<newline>'' @
   u ''            text-align: left;\<newline>'' @
   u ''            font-size: 0.85rem;\<newline>'' @
   u ''            line-height: 1.5;\<newline>'' @
   u ''        }\<newline>'' @
   u ''        \<newline>'' @
   u ''        code {\<newline>'' @
   u ''            font-family: 'Fira Code', monospace;\<newline>'' @
   u ''        }\<newline>'' @
   u ''        \<newline>'' @
   u ''        .activity-content {\<newline>'' @
   u ''            line-height: 1.8;\<newline>'' @
   u ''        }\<newline>'' @
   u ''        \<newline>'' @
   u ''        .activity-content h1, .activity-content h2, .activity-content h3 {\<newline>'' @
   u ''            color: var(--primary);\<newline>'' @
   u ''            margin: 1.5rem 0 1rem;\<newline>'' @
   u ''        }\<newline>'' @
   u ''        \<newline>'' @
   u ''        .activity-content ul, .activity-content ol {\<newline>'' @
   u ''            margin: 1rem 0;\<newline>'' @
   u ''            padding-right: 2rem;\<newline>'' @
   u ''        }\<newline>'' @
   u ''        \<newline>'' @
   u ''        .activity-content li {\<newline>'' @
   u ''            margin: 0.5rem 0;\<newline>'' @
   u ''        }\<newline>'' @
   u ''        \<newline>'' @
   u ''        .activity-content blockquote {\<newline>'' @
   u ''            border-right: 4px solid var(--primary);\<newline>'' @
   u ''            padding: 1rem 1.5rem;\<newline>'' @
   u ''            margin: 1rem 0;\<newline>'' @
   u ''            background: var(--bg);\<newline>'' @
   u ''            border-radius: 0 0.5rem 0.5rem 0;\<newline>'' @
   u ''            font-style: italic;\<newline>'' @
   u ''        }\<newline>'' @
   u ''        \<newline>'' @
   u ''        .activity-content hr {\<newline>'' @
   u ''            border: none;\<newline>'' @
   u ''            border-top: 2px solid var(--border);\<newline>'' @
   u ''            margin: 2rem 0;\<newline>'' @
   u ''        }\<newline>'' @
   u ''        \<newline>'' @
   u ''        footer {\<newline>'' @
   u ''            text-align: center;\<newline>'' @
   u ''            padding: 2rem;\<newline>'' @
   u ''            color: var(--text-muted);\<newline>'' @
   u ''            border-top: 1px solid var(--border);\<newline>'' @
   u ''            margin-top: 3rem;\<newline>'' @
   u ''        }\<newline>'' @
   u ''        \<newline>'' @
   u ''        @media (max-width: 768px) {\<newline>'' @
   u ''            .container {\<newline>'' @
   u ''                padding: 1rem;\<newline>'' @
   u ''            }\<newline>'' @
   u ''            \<newline>'' @
   u ''            header {\<newline>'' @
   u ''                padding: 2rem 1rem;\<newline>'' @
   u ''            }\<newline>'' @
   u ''            \<newline>'' @
   u ''            header h1 {\<newline>'' @
   u ''                font-size: 1.75rem;\<newline>'' @
   u ''            }\<newline>'' @
   u ''            \<newline>'' @
   u ''            .stats-grid {\<newline>'' @
   u ''                grid-template-columns: repeat(2, 1fr);\<newline>'' @
   u ''            }\<newline>'' @
   u ''        }\<newline>'' @
   u ''    </style>\<newline>'' @
   u ''</head>\<newline>'' @
   u ''<body>\<newline>'' @
   u ''    ''\<close>

definition HTML_TEMPLATE_2 :: ustring where
  \<open>HTML_TEMPLATE_2 =
   u ''\<newline>'' @
   u ''    <footer>\<newline>'' @
   u ''        <p>'' @ [1504, 1493, 1510, 1512] @ u '' '' @ [1506, 1500] @ u '' '' @ [1497, 1491, 1497] @ u '' Agadah-Bot | '' @ [1502, 1493, 1491, 1500] @ u '': Claude Opus 4.5 | ''\<close>

definition HTML_TEMPLATE_3 :: ustring where
  \<open>HTML_TEMPLATE_3 =
   u ''</p>\<newline>'' @
   u ''    </footer>\<newline>'' @
   u ''</body>\<newline>'' @
   u ''</html>\<newline>''\<close>

definition stats_html_0 :: ustring where
  \<open>stats_html_0 =
   u ''\<newline>'' @
   u ''    <div class="stats-grid">\<newline>'' @
   u ''        <div class="stat-card">\<newline>'' @
   u ''            <div class="stat-value">''\<close>

definition stats_html_1 :: ustring where
  \<open>stats_html_1 =
   u ''</div>\<newline>'' @
   u ''            <div class="stat-label">'' @ [1505, 1492] @ u ''"'' @ [1499] @ u '' '' @ [1489, 1491, 1497, 1511, 1493, 1514] @ u ''</div>\<newline>'' @
   u ''        </div>\<newline>'' @
   u ''        <div class="stat-card">\<newline>'' @
   u ''            <div class="stat-value" style="color: var(--success)">''\<close>

definition stats_html_2 :: ustring where
  \<open>stats_html_2 =
   u ''</div>\<newline>'' @
   u ''            <div class="stat-label">'' @ [1506, 1489, 1512, 1493] @ u '' '' @ [1489, 1492, 1510, 1500, 1495, 1492] @ u ''</div>\<newline>'' @
   u ''        </div>\<newline>'' @
   u ''        <div class="stat-card">\<newline>'' @
   u ''            <div class="stat-value" style="color: var(--danger)">''\<close>

definition stats_html_3 :: ustring where
  \<open>stats_html_3 =
   u ''</div>\<newline>'' @
   u ''            <div class="stat-label">'' @ [1504, 1499, 1513, 1500, 1493] @ u ''</div>\<newline>'' @
   u ''        </div>\<newline>'' @
   u ''        <div class="stat-card">\<newline>'' @
   u ''            <div class="stat-value">''\<close>

definition stats_html_4 :: ustring where
  \<open>stats_html_4 =
   u ''</div>\<newline>'' @
   u ''            <div class="stat-label">'' @ [1491, 1511, 1493, 1514] @ u '' '' @ [1505, 1492] @ u ''"'' @ [1499] @ u ''</div>\<newline>'' @
   u ''        </div>\<newline>'' @
   u ''    </div>\<newline>'' @
   u ''    ''\<close>

definition test_item_0 :: ustring where
  \<open>test_item_0 =
   u ''\<newline>'' @
   u ''        <a href="''\<close>

definition test_item_1 :: ustring where
  \<open>test_item_1 =
   u ''.html" class="test-item">\<newline>'' @
   u ''            <div class="test-status ''\<close>

definition test_item_2 :: ustring where
  \<open>test_item_2 = u ''">''\<close>

definition test_item_3 :: ustring where
  \<open>test_item_3 =
   u ''</div>\<newline>'' @
   u ''            <div class="test-info">\<newline>'' @
   u ''                <div class="test-name">''\<close>

definition test_item_4 :: ustring where
  \<open>test_item_4 =
   u ''</div>\<newline>'' @
   u ''                <div class="test-meta">\<newline>'' @
   u ''                    <span class="badge badge-primary">''\<close>

definition test_item_5 :: ustring where
  \<open>test_item_5 =
   u ''</span>\<newline>'' @
   u ''                    <span class="badge badge-primary">''\<close>

definition test_item_6 :: ustring where
  \<open>test_item_6 =
   u ''</span>\<newline>'' @
   u ''                    <span class="badge badge-primary">''\<close>

definition test_item_7 :: ustring where
  \<open>test_item_7 =
   u '' '' @ [1491, 1511, 1493, 1514] @ u ''</span>\<newline>'' @
   u ''                </div>\<newline>'' @
   u ''            </div>\<newline>'' @
   u ''            <div class="test-duration">''\<close>

definition test_item_8 :: ustring where
  \<open>test_item_8 =
   u '' '' @ [1491, 1511, 39] @ u ''</div>\<newline>'' @
   u ''        </a>\<newline>'' @
   u ''        ''\<close>

definition index_content_0 :: ustring where
  \<open>index_content_0 =
   u ''\<newline>'' @
   u ''    <header>\<newline>'' @
   u ''        <div class="container">\<newline>'' @
   u ''            <h1>'' @ [128334] @ u '' '' @ [1491, 1493, 1495, 1493, 1514] @ u '' '' @ [1489, 1491, 1497, 1511, 1493, 1514] @ u '' Agadah-Bot</h1>\<newline>'' @
   u ''            <p>'' @ [1489, 1491, 1497, 1511, 1493, 1514] @ u '' '' @ [1511, 1510, 1492] @ u ''-'' @ [1500, 1511, 1510, 1492] @ u '' '' @ [1500, 1497, 1510, 1497, 1512, 1514] @ u '' '' @ [1508, 1506, 1497, 1500, 1493, 1497, 1493, 1514] @ u '' '' @ [1495, 1497, 1504, 1493, 1499, 1497, 1493, 1514] @ u '' | Claude Opus 4.5</p>\<newline>'' @
   u ''        </div>\<newline>'' @
   u ''    </header>\<newline>'' @
   u ''    <div class="container">\<newline>'' @
   u ''        <div class="card">\<newline>'' @
   u ''            <h2>'' @ [128202] @ u '' '' @ [1505, 1497, 1499, 1493, 1501] @ u '' '' @ [1499, 1500, 1500, 1497] @ u ''</h2>\<newline>'' @
   u ''            ''\<close>

definition index_content_1 :: ustring where
  \<open>index_content_1 =
   u ''\<newline>'' @
   u ''        </div>\<newline>'' @
   u ''        \<newline>'' @
   u ''        <div class="card">\<newline>'' @
   u ''            <h2>'' @ [128203] @ u '' '' @ [1512, 1513, 1497, 1502, 1514] @ u '' '' @ [1489, 1491, 1497, 1511, 1493, 1514] @ u ''</h2>\<newline>'' @
   u ''            ''\<close>

definition index_content_2 :: ustring where
  \<open>index_content_2 =
   u ''\<newline>'' @
   u ''        </div>\<newline>'' @
   u ''    </div>\<newline>'' @
   u ''    ''\<close>

definition step_row_0 :: ustring where
  \<open>step_row_0 =
   u ''\<newline>'' @
   u ''            <tr>\<newline>'' @
   u ''                <td>''\<close>

definition step_row_1 :: ustring where
  \<open>step_row_1 =
   u ''</td>\<newline>'' @
   u ''                <td>''\<close>

definition step_row_2 :: ustring where
  \<open>step_row_2 =
   u ''</td>\<newline>'' @
   u ''                <td><span class="badge ''\<close>

definition step_row_3 :: ustring where
  \<open>step_row_3 = u ''">''\<close>

definition step_row_4 :: ustring where
  \<open>step_row_4 =
   u ''</span></td>\<newline>'' @
   u ''            </tr>\<newline>'' @
   u ''        ''\<close>

definition test_content_0 :: ustring where
  \<open>test_content_0 =
   u ''\<newline>'' @
   u ''    <header>\<newline>'' @
   u ''        <div class="container">\<newline>'' @
   u ''            <h1>''\<close>

definition test_content_1 :: ustring where
  \<open>test_content_1 =
   u ''</h1>\<newline>'' @
   u ''            <p>''\<close>

definition test_content_2 :: ustring where
  \<open>test_content_2 =
   u ''</p>\<newline>'' @
   u ''        </div>\<newline>'' @
   u ''    </header>\<newline>'' @
   u ''    <div class="container">\<newline>'' @
   u ''        <div class="breadcrumb">\<newline>'' @
   u ''            <a href="index.html">'' @ [8592] @ u '' '' @ [1495, 1494, 1512, 1492] @ u '' '' @ [1500, 1512, 1513, 1497, 1502, 1514] @ u '' '' @ [1492, 1489, 1491, 1497, 1511, 1493, 1514] @ u ''</a>\<newline>'' @
   u ''        </div>\<newline>'' @
   u ''        \<newline>'' @
   u ''        <div class="card">\<newline>'' @
   u ''            <h2>'' @ [128203] @ u '' '' @ [1508, 1512, 1496, 1497] @ u '' '' @ [1492, 1508, 1506, 1497, 1500, 1493, 1514] @ u ''</h2>\<newline>'' @
   u ''            <table>\<newline>'' @
   u ''                <tr><th>'' @ [1505, 1493, 1490] @ u '' '' @ [1508, 1506, 1497, 1500, 1493, 1514] @ u ''</th><td>''\<close>

definition test_content_3 :: ustring where
  \<open>test_content_3 =
   u ''</td></tr>\<newline>'' @
   u ''                <tr><th>'' @ [1511, 1489, 1493, 1510, 1514] @ u '' '' @ [1490, 1497, 1500] @ u ''</th><td>''\<close>

definition test_content_4 :: ustring where
  \<open>test_content_4 =
   u ''</td></tr>\<newline>'' @
   u ''                <tr><th>'' @ [1502, 1513, 1498] @ u ''</th><td>''\<close>

definition test_content_5 :: ustring where
  \<open>test_content_5 =
   u '' '' @ [1491, 1511, 1493, 1514] @ u ''</td></tr>\<newline>'' @
   u ''                <tr><th>'' @ [1504, 1493, 1513, 1488] @ u '' '' @ [1502, 1512, 1499, 1494, 1497] @ u ''</th><td>''\<close>

definition test_content_6 :: ustring where
  \<open>test_content_6 =
   u ''</td></tr>\<newline>'' @
   u ''                <tr><th>'' @ [1506, 1512, 1499, 1497, 1501] @ u ''</th><td>''\<close>

definition test_content_7 :: ustring where
  \<open>test_content_7 =
   u ''</td></tr>\<newline>'' @
   u ''                <tr><th>'' @ [1502, 1505, 1512] @ u '' '' @ [1505, 1497, 1493, 1501] @ u ''</th><td>''\<close>

definition test_content_8 :: ustring where
  \<open>test_content_8 =
   u ''</td></tr>\<newline>'' @
   u ''            </table>\<newline>'' @
   u ''        </div>\<newline>'' @
   u ''        \<newline>'' @
   u ''        <div class="card">\<newline>'' @
   u ''            <h2>'' @ [9201, 65039] @ u '' '' @ [1513, 1500, 1489, 1497] @ u '' '' @ [1492, 1489, 1497, 1510, 1493, 1506] @ u ''</h2>\<newline>'' @
   u ''            ''\<close>

definition test_content_9 :: ustring where
  \<open>test_content_9 =
   u ''\<newline>'' @
   u ''            <p style="margin-top: 1rem; color: var(--text-muted);">\<newline>'' @
   u ''                <strong>'' @ [1505, 1492] @ u ''"'' @ [1499] @ u '' '' @ [1494, 1502, 1503] @ u '' '' @ [1489, 1497, 1510, 1493, 1506] @ u '':</strong> ''\<close>

definition test_content_10 :: ustring where
  \<open>test_content_10 =
   u '' '' @ [1491, 1511, 1493, 1514] @ u ''\<newline>'' @
   u ''            </p>\<newline>'' @
   u ''        </div>\<newline>'' @
   u ''        \<newline>'' @
   u ''        <div class="card">\<newline>'' @
   u ''            <h2>'' @ [128196] @ u '' '' @ [1514, 1493, 1499, 1504, 1497, 1514] @ u '' '' @ [1492, 1508, 1506, 1497, 1500, 1493, 1514] @ u ''</h2>\<newline>'' @
   u ''            <div class="activity-content">\<newline>'' @
   u ''                ''\<close>

definition test_content_11 :: ustring where
  \<open>test_content_11 =
   u ''\<newline>'' @
   u ''            </div>\<newline>'' @
   u ''        </div>\<newline>'' @
   u ''    </div>\<newline>'' @
   u ''    ''\<close>

definition steps_html_head :: ustring where
  \<open>steps_html_head =
   u ''\<newline>'' @
   u ''    <table>\<newline>'' @
   u ''        <thead>\<newline>'' @
   u ''            <tr>\<newline>'' @
   u ''                <th>'' @ [1513, 1500, 1489] @ u ''</th>\<newline>'' @
   u ''                <th>'' @ [1502, 1513, 1498] @ u '' ('' @ [1513, 1504, 1497, 1493, 1514] @ u '')</th>\<newline>'' @
   u ''                <th>'' @ [1505, 1496, 1496, 1493, 1505] @ u ''</th>\<newline>'' @
   u ''            </tr>\<newline>'' @
   u ''        </thead>\<newline>'' @
   u ''        <tbody>\<newline>'' @
   u ''    ''\<close>

section \<open>Regular expressions as the program uses them\<close>

text \<open>
  Every pattern of the program is a sequence of literals, of repetitions of one character
  class and of one lookahead.  An \<open>item list\<close> is such a sequence; the capturing groups of
  the source pattern are read off the result by position.
\<close>

datatype greed = Greedy | Lazy

datatype ahead = At_lit ustring | At_end

datatype item =
    Lit ustring
  | Plus greed "nat \<Rightarrow> bool"
  | Star greed "nat \<Rightarrow> bool"
  | Ahead "ahead list"

text \<open>The character classes: \<^verbatim>\<open>\w\<close>, \<^verbatim>\<open>\d\<close>, \<^verbatim>\<open>[\d.]\<close>, \<^verbatim>\<open>.\<close> and \<^verbatim>\<open>[\s\S]\<close>.\<close>

definition ascii_alnum :: "nat \<Rightarrow> bool" where
  "ascii_alnum c = ((48 \<le> c \<and> c \<le> 57) \<or> (65 \<le> c \<and> c \<le> 90) \<or> (97 \<le> c \<and> c \<le> 122))"

definition is_word :: "'f pylib \<Rightarrow> nat \<Rightarrow> bool" where
  "is_word L c = (if c < 128 then ascii_alnum c \<or> c = 95 else uni_alnum L c)"

definition is_digit :: "'f pylib \<Rightarrow> nat \<Rightarrow> bool" where
  "is_digit L c = (if c < 128 then 48 \<le> c \<and> c \<le> 57 else uni_decimal L c)"

definition digit_or_dot :: "'f pylib \<Rightarrow> nat \<Rightarrow> bool" where
  "digit_or_dot L c = (is_digit L c \<or> c = 46)"

definition not_newline :: "nat \<Rightarrow> bool" where
  "not_newline c = (c \<noteq> 10)"

definition any_char :: "nat \<Rightarrow> bool" where
  "any_char c = True"

text \<open>
  \<^verbatim>\<open>$\<close> without \<^verbatim>\<open>re.MULTILINE\<close> holds at the end of the text and before a newline that
  ends the text.
\<close>

fun ahead_holds :: "ahead \<Rightarrow> ustring \<Rightarrow> bool" where
  "ahead_holds (At_lit l) s = (take (length l) s = l)"
| "ahead_holds At_end s = (s = [] \<or> s = [10])"

text \<open>
  \<open>rmatch p s\<close> matches the pattern at the start of \<open>s\<close> the way a backtracking matcher
  does: a greedy repetition tries the longest run first, a lazy one the shortest, and the
  first alternative that lets the rest of the pattern match is the result.  The result is
  the text consumed by each item, in order, and the text left over.
\<close>

fun ext :: "nat \<Rightarrow> (ustring list \<times> ustring) option \<Rightarrow> (ustring list \<times> ustring) option" where
  "ext x None = None"
| "ext x (Some ([], r)) = Some ([[x]], r)"
| "ext x (Some (g # gs, r)) = Some ((x # g) # gs, r)"

fun seg :: "ustring \<Rightarrow> (ustring list \<times> ustring) option \<Rightarrow> (ustring list \<times> ustring) option" where
  "seg g None = None"
| "seg g (Some (gs, r)) = Some (g # gs, r)"

fun rmatch :: "item list \<Rightarrow> ustring \<Rightarrow> (ustring list \<times> ustring) option" where
  "rmatch [] s = Some ([], s)"
| "rmatch (Lit l # p) s =
     (if take (length l) s = l then seg l (rmatch p (drop (length l) s)) else None)"
| "rmatch (Ahead as # p) s =
     (if list_ex (\<lambda>a. ahead_holds a s) as then seg [] (rmatch p s) else None)"
| "rmatch (Plus q c # p) [] = None"
| "rmatch (Plus q c # p) (x # xs) =
     (if c x then ext x (rmatch (Star q c # p) xs) else None)"
| "rmatch (Star Lazy c # p) [] = seg [] (rmatch p [])"
| "rmatch (Star Lazy c # p) (x # xs) =
     (case rmatch p (x # xs) of
        Some (gs, r) \<Rightarrow> Some ([] # gs, r)
      | None \<Rightarrow> (if c x then ext x (rmatch (Star Lazy c # p) xs) else None))"
| "rmatch (Star Greedy c # p) [] = seg [] (rmatch p [])"
| "rmatch (Star Greedy c # p) (x # xs) =
     (case (if c x then ext x (rmatch (Star Greedy c # p) xs) else None) of
        Some m \<Rightarrow> Some m
      | None \<Rightarrow> seg [] (rmatch p (x # xs)))"

text \<open>
  \<^verbatim>\<open>re.search\<close>: the match at the leftmost position that has one.  The result also
  gives the text before the match.
\<close>

fun skip :: "nat \<Rightarrow> (ustring \<times> ustring list \<times> ustring) option
    \<Rightarrow> (ustring \<times> ustring list \<times> ustring) option" where
  "skip x None = None"
| "skip x (Some (pre, gs, r)) = Some (x # pre, gs, r)"

fun re_search :: "item list \<Rightarrow> ustring \<Rightarrow> (ustring \<times> ustring list \<times> ustring) option" where
  "re_search p [] = (case rmatch p [] of Some (gs, r) \<Rightarrow> Some ([], gs, r) | None \<Rightarrow> None)"
| "re_search p (x # xs) =
     (case rmatch p (x # xs) of
        Some (gs, r) \<Rightarrow> Some ([], gs, r)
      | None \<Rightarrow> skip x (re_search p xs))"

text \<open>The text of a capturing group that spans the items \<open>i..<j\<close> of the pattern.\<close>

definition match_group :: "ustring list \<Rightarrow> nat \<Rightarrow> nat \<Rightarrow> ustring" where
  "match_group gs i j = concat (take (j - i) (drop i gs))"

text \<open>
  \<^verbatim>\<open>re.finditer\<close>: the matches from left to right, each search starting where the match
  before it ended.  Each entry gives the text skipped before the match and the match.  A
  pattern that matches the empty text is searched again one character further; the only
  pattern the program iterates starts with a literal.
\<close>

function finditer :: "item list \<Rightarrow> ustring \<Rightarrow> (ustring \<times> ustring list) list" where
  "finditer p s =
     (case re_search p s of
        None \<Rightarrow> []
      | Some (pre, gs, r) \<Rightarrow>
          (pre, gs) # (if length r < length s then finditer p r
                       else (case s of [] \<Rightarrow> [] | x # xs \<Rightarrow> finditer p xs)))"
  by pat_completeness auto
termination
  by (relation "measure (\<lambda>(p, s). length s)") auto

declare finditer.simps [simp del]

text \<open>\<^verbatim>\<open>str.strip()\<close> removes the characters for which \<^verbatim>\<open>str.isspace\<close> holds.\<close>

definition is_space :: "nat \<Rightarrow> bool" where
  "is_space c = ((9 \<le> c \<and> c \<le> 13) \<or> (28 \<le> c \<and> c \<le> 32) \<or> c = 133 \<or> c = 160 \<or> c = 5760
     \<or> (8192 \<le> c \<and> c \<le> 8202) \<or> c = 8232 \<or> c = 8233 \<or> c = 8239 \<or> c = 8287 \<or> c = 12288)"

definition strip :: "ustring \<Rightarrow> ustring" where
  "strip s = rev (dropWhile is_space (rev (dropWhile is_space s)))"

section \<open>\<^verbatim>\<open>extract_test_info\<close>\<close>

text \<open>\<^verbatim>\<open># E2E Test Report: (\w+)\<close>\<close>

definition title_pattern :: "'f pylib \<Rightarrow> item list" where
  "title_pattern L = [Lit (u ''# E2E Test Report: ''), Plus Greedy (is_word L)]"

text \<open>\<^verbatim>\<open>\| model \| (.+?) \|\<close>\<close>

definition config_pattern :: "item list" where
  "config_pattern = [Lit (u ''| model | ''), Plus Lazy not_newline, Lit (u '' |'')]"

text \<open>\<^verbatim>\<open>\*\*User Request:\*\* (.+)\<close>\<close>

definition request_pattern :: "item list" where
  "request_pattern = [Lit (u ''**User Request:** ''), Plus Greedy not_newline]"

text \<open>\<^verbatim>\<open>```json\n({[\s\S]*?})\n```\<close>\<close>

definition json_pattern :: "item list" where
  "json_pattern = [Lit (u ''```json\<newline>''), Lit (u ''{''), Star Lazy any_char, Lit (u ''}''),
     Lit (u ''\<newline>```'')]"

text \<open>\<^verbatim>\<open>## Final Output\n\n```markdown\n([\s\S]+?)```\<close>\<close>

definition final_output_pattern :: "item list" where
  "final_output_pattern = [Lit (u ''## Final Output\<newline>\<newline>```markdown\<newline>''),
     Plus Lazy any_char, Lit (u ''```'')]"

text \<open>\<^verbatim>\<open>## Final Output\n\n([\s\S]+?)(?=\n## |$)\<close>\<close>

definition fallback_pattern :: "item list" where
  "fallback_pattern = [Lit (u ''## Final Output\<newline>\<newline>''), Plus Lazy any_char,
     Ahead [At_lit (u ''\<newline>## ''), At_end]]"

text \<open>\<^verbatim>\<open>STEP: (.+?)\n.*?Duration: ([\d.]+)s.*?Result: (\w+)\<close> with \<^verbatim>\<open>re.DOTALL\<close>\<close>

definition step_pattern :: "'f pylib \<Rightarrow> item list" where
  "step_pattern L = [Lit (u ''STEP: ''), Plus Lazy any_char, Lit (u ''\<newline>''), Star Lazy any_char,
     Lit (u ''Duration: ''), Plus Greedy (digit_or_dot L), Lit (u ''s''), Star Lazy any_char,
     Lit (u ''Result: ''), Plus Greedy (is_word L)]"

text \<open>
  \<^verbatim>\<open>float(s)\<close> on a text of digits and dots: it raises \<^verbatim>\<open>ValueError\<close> unless the text
  has a digit and at most one dot.
\<close>

definition float_accepts :: "'f pylib \<Rightarrow> ustring \<Rightarrow> bool" where
  "float_accepts L s = (list_ex (is_digit L) s \<and> length (filter (\<lambda>c. c = 46) s) \<le> 1)"

definition step_of_match :: "'f pylib \<Rightarrow> ustring \<times> ustring list \<Rightarrow> py_error + 'f step" where
  "step_of_match L m =
     (if float_accepts L (match_group (snd m) 5 6)
      then Inr \<lparr> step_name = match_group (snd m) 1 2,
                 step_duration = float_of_str L (match_group (snd m) 5 6),
                 step_status = match_group (snd m) 9 10 \<rparr>
      else Inl ValueError)"

fun collect_steps :: "'f pylib \<Rightarrow> 'f step list \<Rightarrow> (ustring \<times> ustring list) list
    \<Rightarrow> py_error + 'f step list" where
  "collect_steps L acc [] = Inr acc"
| "collect_steps L acc (m # ms) =
     (case step_of_match L m of
        Inl e \<Rightarrow> Inl e
      | Inr step \<Rightarrow> collect_steps L (acc @ [step]) ms)"

definition extract_title :: "'f pylib \<Rightarrow> ustring \<Rightarrow> 'f test_info \<Rightarrow> 'f test_info" where
  "extract_title L md_content info =
     (case re_search (title_pattern L) md_content of
        Some (pre, gs, r) \<Rightarrow>
          info \<lparr> name := Some (match_group gs 1 2),
                 name_heb := Some (case map_of TEST_NAMES_HEB (match_group gs 1 2) of
                                     Some heb \<Rightarrow> heb | None \<Rightarrow> match_group gs 1 2) \<rparr>
      | None \<Rightarrow> info)"

definition extract_model :: "ustring \<Rightarrow> 'f test_info \<Rightarrow> 'f test_info" where
  "extract_model md_content info =
     (case re_search config_pattern md_content of
        Some (pre, gs, r) \<Rightarrow> info \<lparr> model := Some (match_group gs 1 2) \<rparr>
      | None \<Rightarrow> info)"

definition extract_user_request :: "ustring \<Rightarrow> 'f test_info \<Rightarrow> 'f test_info" where
  "extract_user_request md_content info =
     (case re_search request_pattern md_content of
        Some (pre, gs, r) \<Rightarrow> info \<lparr> user_request := Some (match_group gs 1 2) \<rparr>
      | None \<Rightarrow> info)"

definition extract_activity_details :: "'f pylib \<Rightarrow> ustring \<Rightarrow> 'f test_info \<Rightarrow> 'f test_info" where
  "extract_activity_details L md_content info =
     (case re_search json_pattern md_content of
        Some (pre, gs, r) \<Rightarrow>
          (case json_loads L (match_group gs 1 4) of
             Some obj \<Rightarrow> info \<lparr> activity_details := Some obj \<rparr>
           | None \<Rightarrow> info)
      | None \<Rightarrow> info)"

definition extract_final_output :: "ustring \<Rightarrow> 'f test_info \<Rightarrow> 'f test_info" where
  "extract_final_output md_content info =
     (case re_search final_output_pattern md_content of
        Some (pre, gs, r) \<Rightarrow> info \<lparr> final_output := Some (strip (match_group gs 1 2)) \<rparr>
      | None \<Rightarrow>
          (case re_search fallback_pattern md_content of
             Some (pre, gs, r) \<Rightarrow> info \<lparr> final_output := Some (strip (match_group gs 1 2)) \<rparr>
           | None \<Rightarrow> info))"

definition extract_test_info :: "'f pylib \<Rightarrow> ustring \<Rightarrow> py_error + 'f test_info" where
  "extract_test_info L md_content =
     (let info = extract_final_output md_content
                   (extract_activity_details L md_content
                     (extract_user_request md_content
                       (extract_model md_content
                         (extract_title L md_content empty_info))))
      in case collect_steps L [] (finditer (step_pattern L) md_content) of
           Inl e \<Rightarrow> Inl e
         | Inr found \<Rightarrow>
             Inr (info \<lparr> steps := Some found,
                         total_duration := Some (if found \<noteq> []
                           then py_sum L (map (\<lambda>s. PFloat (step_duration s)) found)
                           else PInt 0) \<rparr>))"

section \<open>What a match is\<close>

text \<open>
  \<open>segs_ok p gs r\<close> says that the texts \<open>gs\<close>, one for each item of \<open>p\<close>, are a match of
  the pattern that is followed by the text \<open>r\<close>: a literal consumes itself, a repetition
  consumes characters of its class (at least one for \<open>Plus\<close>), a lookahead consumes nothing
  and looks at what follows.  The pattern matches at offset \<open>i\<close> of a text when such a
  division of the text from \<open>i\<close> on exists; \<open>rmatch\<close> decides it.
\<close>

fun segs_ok :: "item list \<Rightarrow> ustring list \<Rightarrow> ustring \<Rightarrow> bool" where
  "segs_ok [] [] r = True"
| "segs_ok (Lit l # p) (g # gs) r = (g = l \<and> segs_ok p gs r)"
| "segs_ok (Plus q c # p) (g # gs) r = (g \<noteq> [] \<and> list_all c g \<and> segs_ok p gs r)"
| "segs_ok (Star q c # p) (g # gs) r = (list_all c g \<and> segs_ok p gs r)"
| "segs_ok (Ahead as # p) (g # gs) r =
     (g = [] \<and> list_ex (\<lambda>a. ahead_holds a (concat gs @ r)) as \<and> segs_ok p gs r)"
| "segs_ok _ _ _ = False"

definition matches_at :: "item list \<Rightarrow> ustring \<Rightarrow> nat \<Rightarrow> bool" where
  "matches_at p s i = (i \<le> length s \<and> rmatch p (drop i s) \<noteq> None)"

text \<open>A pattern is consuming when none of its matches is empty.\<close>

definition consuming :: "item list \<Rightarrow> bool" where
  "consuming p = (\<forall>gs r. segs_ok p gs r \<longrightarrow> concat gs \<noteq> [])"

text \<open>
  The matches that \<open>finditer\<close> returns with their places in the text: the offset of the
  first character, the offset after the last one, and the texts consumed by the items.
\<close>

fun locate :: "nat \<Rightarrow> (ustring \<times> ustring list) list \<Rightarrow> (nat \<times> nat \<times> ustring list) list" where
  "locate off [] = []"
| "locate off (m # ms) =
     (off + length (fst m), off + length (fst m) + length (concat (snd m)), snd m)
     # locate (off + length (fst m) + length (concat (snd m))) ms"

definition HTML_TEMPLATE_format :: "ustring \<Rightarrow> ustring \<Rightarrow> ustring \<Rightarrow> ustring" where
  "HTML_TEMPLATE_format title content date =
     HTML_TEMPLATE_0 @ title @ HTML_TEMPLATE_1 @ content @ HTML_TEMPLATE_2 @ date @ HTML_TEMPLATE_3"

section \<open>\<^verbatim>\<open>generate_test_html\<close>\<close>

text \<open>\<^verbatim>\<open>test.get('name_heb', test.get('name', 'Unknown'))\<close>\<close>

definition display_name :: "'f test_info \<Rightarrow> ustring" where
  "display_name test = (case name_heb test of Some h \<Rightarrow> h
     | None \<Rightarrow> (case name test of Some n \<Rightarrow> n | None \<Rightarrow> u ''Unknown''))"

text \<open>\<^verbatim>\<open>test.get('total_duration', 0)/60:.1f\<close>\<close>

definition duration_minutes_1f :: "'f pylib \<Rightarrow> 'f test_info \<Rightarrow> ustring" where
  "duration_minutes_1f L test =
     format_1f L (truediv L (case total_duration test of Some d \<Rightarrow> d | None \<Rightarrow> PInt 0) 60)"

definition no_final_output :: ustring where
  \<open>no_final_output = u ''<p>'' @ [1500, 1488] @ u '' '' @ [1504, 1502, 1510, 1488] @ u '' '' @
     [1508, 1500, 1496] @ u '' '' @ [1505, 1493, 1508, 1497] @ u ''</p>''\<close>

definition final_output_html :: "'f pylib \<Rightarrow> 'f test_info \<Rightarrow> ustring" where
  "final_output_html L test =
     (let fo = (case final_output test of Some s \<Rightarrow> s | None \<Rightarrow> [])
      in if fo \<noteq> []
         then (case markdown L fo of
                 Some html \<Rightarrow> html
               | None \<Rightarrow> u ''<pre>'' @ fo @ u ''</pre>'')
         else no_final_output)"

definition status_badge :: "'f step \<Rightarrow> ustring" where
  "status_badge step =
     (if step_status step = u ''SUCCESS'' then u ''badge-success'' else u ''badge-danger'')"

definition status_text :: "'f step \<Rightarrow> ustring" where
  "status_text step =
     (if step_status step = u ''SUCCESS'' then [1492, 1510, 1500, 1495, 1492]
      else [1499, 1513, 1500, 1493, 1503])"

definition step_row :: "'f pylib \<Rightarrow> 'f step \<Rightarrow> ustring" where
  "step_row L step =
     step_row_0 @ step_name step @ step_row_1 @ format_1f L (step_duration step) @ step_row_2
     @ status_badge step @ step_row_3 @ status_text step @ step_row_4"

definition steps_html :: "'f pylib \<Rightarrow> 'f test_info \<Rightarrow> ustring" where
  "steps_html L test =
     foldl (\<lambda>html step. html @ step_row L step) steps_html_head
       (case steps test of Some ss \<Rightarrow> ss | None \<Rightarrow> [])
     @ u ''</tbody></table>''"

definition test_content :: "'f pylib \<Rightarrow> 'f test_info \<Rightarrow> ustring \<Rightarrow> ustring \<Rightarrow> ustring \<Rightarrow> ustring" where
  "test_content L test activity_type_heb age_group_heb main_values =
     (let details = (case activity_details test of Some d \<Rightarrow> d | None \<Rightarrow> [])
      in test_content_0 @ display_name test
       @ test_content_1 @ (case user_request test of Some r \<Rightarrow> r | None \<Rightarrow> [])
       @ test_content_2 @ activity_type_heb
       @ test_content_3 @ age_group_heb
       @ test_content_4 @ fstr L (obj_get details (u ''duration_minutes'') (JNum (PInt 0)))
       @ test_content_5 @ fstr L (obj_get details (u ''main_topic'') (JStr []))
       @ test_content_6 @ main_values
       @ test_content_7 @ fstr L (obj_get details (u ''closing_message_theme'') (JStr []))
       @ test_content_8 @ steps_html L test
       @ test_content_9 @ duration_minutes_1f L test
       @ test_content_10 @ final_output_html L test
       @ test_content_11)"

definition generate_test_html ::
    "'f pylib \<Rightarrow> datetime \<Rightarrow> 'f test_info \<Rightarrow> ustring \<Rightarrow> py_error + ustring" where
  "generate_test_html L now test md_content =
     (let details = (case activity_details test of Some d \<Rightarrow> d | None \<Rightarrow> [])
      in case table_get ACTIVITY_TYPES_HEB (obj_get details (u ''activity_type'') (JStr [])) (JStr []) of
           Inl e \<Rightarrow> Inl e
         | Inr activity_type_heb \<Rightarrow>
      (case table_get AGE_GROUPS_HEB (obj_get details (u ''age_group'') (JStr [])) (JStr []) of
           Inl e \<Rightarrow> Inl e
         | Inr age_group_heb \<Rightarrow>
      (case join_json (u '', '') (obj_get details (u ''main_values'') (JArr [])) of
           Inl e \<Rightarrow> Inl e
         | Inr main_values \<Rightarrow>
             Inr (HTML_TEMPLATE_format (display_name test)
                    (test_content L test (fstr L activity_type_heb) (fstr L age_group_heb) main_values)
                    (strftime_dmy now)))))"

section \<open>\<^verbatim>\<open>generate_index_html\<close>\<close>

definition stats_html :: "'f pylib \<Rightarrow> int \<Rightarrow> int \<Rightarrow> int \<Rightarrow> 'f pynum \<Rightarrow> ustring" where
  "stats_html L total_n passed failed total_time =
     stats_html_0 @ str_int total_n
     @ stats_html_1 @ str_int passed
     @ stats_html_2 @ str_int failed
     @ stats_html_3 @ format_1f L (truediv L total_time 60)
     @ stats_html_4"

definition test_item :: "'f pylib \<Rightarrow> 'f test_info \<Rightarrow> py_error + ustring" where
  "test_item L test =
     (let status_class = (if status test = Some (u ''PASS'') then u ''pass'' else u ''fail'');
          status_icon = (if status test = Some (u ''PASS'') then [10003] else [10007]);
          details = (case activity_details test of Some d \<Rightarrow> d | None \<Rightarrow> []);
          activity_type = obj_get details (u ''activity_type'') (JStr []);
          age_group = obj_get details (u ''age_group'') (JStr []);
          duration_min = obj_get details (u ''duration_minutes'') (JNum (PInt 0))
      in case table_get ACTIVITY_TYPES_HEB activity_type activity_type of
           Inl e \<Rightarrow> Inl e
         | Inr activity_type_heb \<Rightarrow>
      (case table_get AGE_GROUPS_HEB age_group age_group of
           Inl e \<Rightarrow> Inl e
         | Inr age_group_heb \<Rightarrow>
      (case filename test of
           None \<Rightarrow> Inl KeyError
         | Some fname \<Rightarrow>
             Inr (test_item_0 @ fname
                @ test_item_1 @ status_class
                @ test_item_2 @ status_icon
                @ test_item_3 @ display_name test
                @ test_item_4 @ fstr L activity_type_heb
                @ test_item_5 @ fstr L age_group_heb
                @ test_item_6 @ fstr L duration_min
                @ test_item_7 @ duration_minutes_1f L test
                @ test_item_8))))"

fun tests_html :: "'f pylib \<Rightarrow> ustring \<Rightarrow> 'f test_info list \<Rightarrow> py_error + ustring" where
  "tests_html L html [] = Inr (html @ u ''</div>'')"
| "tests_html L html (test # tests) =
     (case test_item L test of
        Inl e \<Rightarrow> Inl e
      | Inr item \<Rightarrow> tests_html L (html @ item) tests)"

definition index_title :: ustring where
  \<open>index_title = [1491, 1493, 1495, 1493, 1514] @ u '' '' @ [1489, 1491, 1497, 1511, 1493, 1514] @
     u '' Agadah-Bot''\<close>

definition generate_index_html ::
    "'f pylib \<Rightarrow> datetime \<Rightarrow> 'f test_info list \<Rightarrow> py_error + ustring" where
  \<open>generate_index_html L now tests =
     (let total_n = int (length tests);
          passed = int (length (filter (\<lambda>t. status t = Some (u ''PASS'')) tests));
          failed = total_n - passed;
          total_time = py_sum L (map (\<lambda>t. case total_duration t of Some d \<Rightarrow> d | None \<Rightarrow> PInt 0) tests)
      in case tests_html L (u ''<div class="test-list">'') tests of
           Inl e \<Rightarrow> Inl e
         | Inr html \<Rightarrow>
             Inr (HTML_TEMPLATE_format index_title
                    (index_content_0 @ stats_html L total_n passed failed total_time
                     @ index_content_1 @ html @ index_content_2)
                    (strftime_dmy now)))\<close>

section \<open>\<^verbatim>\<open>main\<close>\<close>

text \<open>
  \<^verbatim>\<open>Path.read_text(encoding='utf-8')\<close> decodes the bytes of the file, raising
  \<^verbatim>\<open>UnicodeDecodeError\<close> on a sequence that is not UTF-8, and turns every line ending into
  a newline; \<^verbatim>\<open>Path.write_text(.., encoding='utf-8')\<close> encodes the page, raising
  \<^verbatim>\<open>UnicodeEncodeError\<close> on a surrogate.
\<close>

type_synonym byte = "8 word"

definition is_cont :: "byte \<Rightarrow> bool" where
  "is_cont b = (128 \<le> unat b \<and> unat b < 192)"

definition cont :: "byte \<Rightarrow> nat" where
  "cont b = unat b - 128"

fun utf8_decode :: "byte list \<Rightarrow> ustring option" where
  "utf8_decode [] = Some []"
| "utf8_decode (b # bs) =
     (let b0 = unat b in
      if b0 < 128 then map_option ((#) b0) (utf8_decode bs)
      else if 194 \<le> b0 \<and> b0 < 224 then
        (case bs of
           c1 # r \<Rightarrow>
             if is_cont c1 then map_option ((#) ((b0 - 192) * 64 + cont c1)) (utf8_decode r)
             else None
         | _ \<Rightarrow> None)
      else if 224 \<le> b0 \<and> b0 < 240 then
        (case bs of
           c1 # c2 # r \<Rightarrow>
             (let cp = (b0 - 224) * 4096 + cont c1 * 64 + cont c2 in
              if is_cont c1 \<and> is_cont c2 \<and> 2048 \<le> cp \<and> \<not> (55296 \<le> cp \<and> cp < 57344)
              then map_option ((#) cp) (utf8_decode r) else None)
         | _ \<Rightarrow> None)
      else if 240 \<le> b0 \<and> b0 < 245 then
        (case bs of
           c1 # c2 # c3 # r \<Rightarrow>
             (let cp = (b0 - 240) * 262144 + cont c1 * 4096 + cont c2 * 64 + cont c3 in
              if is_cont c1 \<and> is_cont c2 \<and> is_cont c3 \<and> 65536 \<le> cp \<and> cp < 1114112
              then map_option ((#) cp) (utf8_decode r) else None)
         | _ \<Rightarrow> None)
      else None)"

fun translate_newlines :: "ustring \<Rightarrow> ustring" where
  "translate_newlines [] = []"
| "translate_newlines [c] = [if c = 13 then 10 else c]"
| "translate_newlines (c # d # s) =
     (if c = 13 \<and> d = 10 then 10 # translate_newlines s
      else (if c = 13 then 10 else c) # translate_newlines (d # s))"

definition read_text :: "byte list \<Rightarrow> py_error + ustring" where
  "read_text bs = (case utf8_decode bs of
       None \<Rightarrow> Inl UnicodeDecodeError
     | Some s \<Rightarrow> Inr (translate_newlines s))"

text \<open>
  A page that is written is kept as its text; the bytes of the file are the UTF-8 encoding
  of the text, which exists unless the text has a surrogate or a number that is no code
  point.
\<close>

definition encodable :: "ustring \<Rightarrow> bool" where
  "encodable s = list_all (\<lambda>c. c < 55296 \<or> (57344 \<le> c \<and> c < 1114112)) s"

definition write_text :: "ustring \<Rightarrow> ustring \<Rightarrow> py_error + (ustring \<times> ustring)" where
  "write_text path s = (if encodable s then Inr (path, s) else Inl UnicodeEncodeError)"

text \<open>
  The status of a record: \<^verbatim>\<open>'PASS' if len(md_content) > 10000 else 'FAIL'\<close>.
\<close>

definition derive_status :: "ustring \<Rightarrow> ustring" where
  "derive_status md_content = (if length md_content > 10000 then u ''PASS'' else u ''FAIL'')"

text \<open>
  One round of the loop over the input files, in two parts: reading the file into its
  record, with the stem of the file name and the status, and writing the detail page of
  the record under the name of the file with the extension \<^verbatim>\<open>.html\<close>.
\<close>

definition read_record :: "'f pylib \<Rightarrow> ustring \<times> byte list \<Rightarrow> py_error + ('f test_info \<times> ustring)" where
  "read_record L f =
     (case read_text (snd f) of
        Inl e \<Rightarrow> Inl e
      | Inr md_content \<Rightarrow>
     (case extract_test_info L md_content of
        Inl e \<Rightarrow> Inl e
      | Inr info \<Rightarrow>
          Inr (info \<lparr> filename := Some (fst f), status := Some (derive_status md_content) \<rparr>,
               md_content)))"

definition process_file :: "'f pylib \<Rightarrow> datetime \<Rightarrow> ustring \<times> byte list
    \<Rightarrow> py_error + ('f test_info \<times> (ustring \<times> ustring))" where
  "process_file L now f =
     (case read_record L f of
        Inl e \<Rightarrow> Inl e
      | Inr (test_info, md_content) \<Rightarrow>
     (case generate_test_html L now test_info md_content of
        Inl e \<Rightarrow> Inl e
      | Inr test_html \<Rightarrow>
     (case write_text (fst f @ u ''.html'') test_html of
        Inl e \<Rightarrow> Inl e
      | Inr page \<Rightarrow> Inr (test_info, page))))"

text \<open>
  The run.  Its inputs are the library, the clock (\<open>clock k\<close> is what the call of
  \<^verbatim>\<open>datetime.now()\<close> for the \<open>k\<close>-th page returns) and the files that
  \<^verbatim>\<open>sorted(BATCH_DIR.glob("test_*.md"))\<close> lists, each with its stem and its bytes.  Its
  result is the list of the files written, in the order of writing, and the exception that
  ended the run, if one did.  The lines that the run prints and the creation of the output
  directory are left out.
\<close>

fun main_loop :: "'f pylib \<Rightarrow> (nat \<Rightarrow> datetime) \<Rightarrow> (ustring \<times> byte list) list
    \<Rightarrow> 'f test_info list \<Rightarrow> (ustring \<times> ustring) list
    \<Rightarrow> (ustring \<times> ustring) list \<times> py_error option" where
  "main_loop L clock [] tests written =
     (case generate_index_html L (clock (length tests)) tests of
        Inl e \<Rightarrow> (written, Some e)
      | Inr index_html \<Rightarrow>
          (case write_text (u ''index.html'') index_html of
             Inl e \<Rightarrow> (written, Some e)
           | Inr page \<Rightarrow> (written @ [page], None)))"
| "main_loop L clock (f # files) tests written =
     (case process_file L (clock (length tests)) f of
        Inl e \<Rightarrow> (written, Some e)
      | Inr (test_info, page) \<Rightarrow> main_loop L clock files (tests @ [test_info]) (written @ [page]))"

definition main :: "'f pylib \<Rightarrow> (nat \<Rightarrow> datetime) \<Rightarrow> (ustring \<times> byte list) list
    \<Rightarrow> (ustring \<times> ustring) list \<times> py_error option" where
  "main L clock test_files = main_loop L clock test_files [] []"

section \<open>A library instance for evaluation\<close>

text \<open>
  An instance of the library parameters on which the model runs on concrete ASCII inputs:
  no letter or digit beyond ASCII, numbers as exact fractions (no rounding), no JSON object
  parsed and a markdown conversion that raises.
\<close>

definition decimal_value :: "ustring \<Rightarrow> rat" where
  "decimal_value s =
     (let ip = takeWhile (\<lambda>c. c \<noteq> 46) s;
          fp = filter (\<lambda>c. c \<noteq> 46) (dropWhile (\<lambda>c. c \<noteq> 46) s)
      in of_nat (foldl (\<lambda>a c. a * 10 + (c - 48)) 0 (ip @ fp)) / of_nat (10 ^ length fp))"

fun exact_value :: "rat pynum \<Rightarrow> rat" where
  "exact_value (PInt i) = of_int i"
| "exact_value (PFloat x) = x"

fun exact_add :: "rat pynum \<Rightarrow> rat pynum \<Rightarrow> rat pynum" where
  "exact_add (PInt i) (PInt j) = PInt (i + j)"
| "exact_add a b = PFloat (exact_value a + exact_value b)"

definition round_half_even :: "rat \<Rightarrow> int" where
  "round_half_even x =
     (let f = \<lfloor>x\<rfloor>; d = x - of_int f
      in if d < 1 / 2 then f else if 1 / 2 < d then f + 1 else if even f then f else f + 1)"

definition exact_format_1f :: "rat \<Rightarrow> ustring" where
  "exact_format_1f x =
     (let n = round_half_even (\<bar>x\<bar> * 10)
      in (if x < 0 \<and> n \<noteq> 0 then u ''-'' else []) @ str_int (n div 10) @ u ''.'' @ str_int (n mod 10))"

definition demo_lib :: "rat pylib" where
  "demo_lib = \<lparr> uni_alnum = (\<lambda>c. False), uni_decimal = (\<lambda>c. False),
     float_of_str = decimal_value,
     py_sum = (\<lambda>xs. foldl exact_add (PInt 0) xs),
     truediv = (\<lambda>x d. exact_value x / of_int d),
     format_1f = exact_format_1f,
     json_loads = (\<lambda>s. None),
     py_repr = (\<lambda>v. []),
     markdown = (\<lambda>s. None) \<rparr>"

text \<open>A short report with a title line that is not at the start of the text, and its record.\<close>

definition titled_text :: ustring where
  "titled_text = u ''x\<newline># E2E Test Report: Teamwork_Games!''"

definition titled_info :: "rat test_info" where
  \<open>titled_info = empty_info \<lparr>
     name := Some (u ''Teamwork_Games''),
     name_heb := Some ([1502, 1513, 1495, 1511, 1497] @ u '' '' @ [1506, 1489, 1493, 1491, 1514] @
                       u '' '' @ [1510, 1493, 1493, 1514]),
     steps := Some [], total_duration := Some (PInt 0) \<rparr>\<close>

text \<open>A moment of the clock, and a record with two steps as the extractor builds it.\<close>

definition demo_now :: datetime where
  "demo_now = \<lparr> year = 2025, month = 11, day = 27, hour = 1, minute = 37, second = 55 \<rparr>"

definition two_step_info :: "rat test_info" where
  "two_step_info = empty_info \<lparr>
     name := Some (u ''Sample_Test''), name_heb := Some (u ''Sample_Test''),
     final_output := Some [],
     steps := Some [\<lparr> step_name = u ''plan'', step_duration = 3 / 2, step_status = u ''SUCCESS'' \<rparr>,
                    \<lparr> step_name = u ''write'', step_duration = 5 / 2, step_status = u ''FAILED'' \<rparr>],
     total_duration := Some (PFloat 4),
     filename := Some (u ''test_01''), status := Some (u ''PASS'') \<rparr>"

text \<open>A report of two steps, and a text in which two step entries share one duration.\<close>

definition two_step_text :: ustring where
  "two_step_text = u ''STEP: plan\<newline>Duration: 1.5s\<newline>Result: SUCCESS\<newline>STEP: write\<newline>Duration: 2.5s\<newline>Result: FAILED\<newline>''"

definition overlap_text :: ustring where
  "overlap_text = u ''STEP: a\<newline>STEP: b\<newline>Duration: 1s Result: OK''"

definition two_step_extracted :: "rat test_info" where
  "two_step_extracted = empty_info \<lparr>
     steps := Some [\<lparr> step_name = u ''plan'', step_duration = 3 / 2, step_status = u ''SUCCESS'' \<rparr>,
                    \<lparr> step_name = u ''write'', step_duration = 5 / 2, step_status = u ''FAILED'' \<rparr>],
     total_duration := Some (PFloat 4) \<rparr>"


text \<open>
  Two input files: 6000 times the Hebrew letter alef, which is 12000 bytes, and 10001 times
  the letter x.
\<close>

definition alef_file :: "byte list" where
  "alef_file = concat (replicate 6000 [215, 144])"

definition x_file :: "byte list" where
  "x_file = replicate 10001 120"

text \<open>The record of a text in which no pattern of the extractor matches.\<close>

definition blank_info :: "rat test_info" where
  "blank_info = empty_info \<lparr> steps := Some [], total_duration := Some (PInt 0) \<rparr>"

text \<open>Two clocks that show different days.\<close>

definition clock_27 :: "nat \<Rightarrow> datetime" where
  "clock_27 k = demo_now"

definition clock_28 :: "nat \<Rightarrow> datetime" where
  "clock_28 k = demo_now \<lparr> day := 28 \<rparr>"

definition clock_27_noon :: "nat \<Rightarrow> datetime" where
  "clock_27_noon k = demo_now \<lparr> hour := 12 \<rparr>"

text \<open>The content of the index page of a run without input files.\<close>

definition empty_index_content :: ustring where
  \<open>empty_index_content =
     index_content_0
     @ (stats_html_0 @ u ''0'' @ stats_html_1 @ u ''0'' @ stats_html_2 @ u ''0'' @ stats_html_3
        @ u ''0.0'' @ stats_html_4)
     @ index_content_1 @ (u ''<div class="test-list">'' @ u ''</div>'') @ index_content_2\<close>

section \<open>Floats as doubles\<close>

text \<open>
  A Python float is an IEEE double: a finite value with a sign bit, \<open>Finite sg m e\<close> for
  the number \<open>m * 2 ^ e\<close>, an infinity with a sign, or a NaN.  One double has several such
  triples; the program never compares floats.
\<close>

datatype double = Finite bool nat int | Infinity bool | NaN

text \<open>The number of binary digits of a natural number.\<close>

fun bit_length :: "nat \<Rightarrow> nat" where
  "bit_length n = (if n = 0 then 0 else Suc (bit_length (n div 2)))"

declare bit_length.simps [simp del]

text \<open>The quotient of two natural numbers, rounded to the nearest integer, a tie to the even one.\<close>

definition rdiv :: "nat \<Rightarrow> nat \<Rightarrow> nat" where
  "rdiv a b =
     (let q = a div b; r = a mod b
      in if 2 * r < b then q else if b < 2 * r then q + 1 else if even q then q else q + 1)"

text \<open>
  The double nearest to the fraction \<open>n / d\<close> with the sign bit \<open>sg\<close>, for \<open>d > 0\<close>: the
  value is rounded to 53 binary digits, to fewer below the normal range, a tie to the even
  neighbour, and to an infinity from \<open>2 ^ 1024 - 2 ^ 970\<close> on.
\<close>

definition double_of_ratio :: "bool \<Rightarrow> nat \<Rightarrow> nat \<Rightarrow> double" where
  "double_of_ratio sg n d =
     (if n = 0 then Finite sg 0 0
      else
        let k = int (bit_length n) - int (bit_length d);
            e0 = (if (if 0 \<le> k then d * 2 ^ nat k \<le> n else d \<le> n * 2 ^ nat (- k)) then k else k - 1);
            e = max e0 (- 1022) - 52
        in if 971 < e then Infinity sg
           else
             let m = (if 0 \<le> e then rdiv n (d * 2 ^ nat e) else rdiv (n * 2 ^ nat (- e)) d)
             in if e = 971 \<and> 2 ^ 53 \<le> m then Infinity sg else Finite sg m e)"

text \<open>
  \<^verbatim>\<open>float(s)\<close> on a text of ASCII digits with at most one dot, which it accepts: the double
  nearest to the decimal number.
\<close>

definition double_of_str :: "ustring \<Rightarrow> double" where
  "double_of_str s =
     (let ip = takeWhile (\<lambda>c. c \<noteq> 46) s;
          fp = filter (\<lambda>c. c \<noteq> 46) (dropWhile (\<lambda>c. c \<noteq> 46) s)
      in double_of_ratio False (foldl (\<lambda>a c. a * 10 + (c - 48)) 0 (ip @ fp)) (10 ^ length fp))"

text \<open>
  The format specification \<^verbatim>\<open>.1f\<close>: a finite double is rounded to one decimal place, a
  tie to the even digit, and printed with its sign bit; the others print as \<^verbatim>\<open>inf\<close>,
  \<^verbatim>\<open>-inf\<close> and \<^verbatim>\<open>nan\<close>.
\<close>

definition double_format_1f :: "double \<Rightarrow> ustring" where
  "double_format_1f x = (case x of
       Finite sg m e \<Rightarrow>
         (let n = (if 0 \<le> e then m * 10 * 2 ^ nat e else rdiv (m * 10) (2 ^ nat (- e)))
          in (if sg then u ''-'' else []) @ str_nat (n div 10) @ [46, 48 + n mod 10])
     | Infinity sg \<Rightarrow> (if sg then u ''-'' else []) @ u ''inf''
     | NaN \<Rightarrow> u ''nan'')"

text \<open>The sum of two doubles and the quotient of a number by a positive int, each rounded once.\<close>

definition double_of_scaled :: "bool \<Rightarrow> nat \<Rightarrow> int \<Rightarrow> double" where
  "double_of_scaled sg n e =
     (if 0 \<le> e then double_of_ratio sg (n * 2 ^ nat e) 1 else double_of_ratio sg n (2 ^ nat (- e)))"

fun double_add :: "double \<Rightarrow> double \<Rightarrow> double" where
  "double_add (Finite sg1 m1 e1) (Finite sg2 m2 e2) =
     (let e = min e1 e2;
          v = (if sg1 then - 1 else 1) * int m1 * 2 ^ nat (e1 - e)
            + (if sg2 then - 1 else 1) * int m2 * 2 ^ nat (e2 - e)
      in if v = 0 then Finite (sg1 \<and> sg2) 0 0 else double_of_scaled (v < 0) (nat \<bar>v\<bar>) e)"
| "double_add (Finite sg1 m1 e1) (Infinity sg2) = Infinity sg2"
| "double_add (Infinity sg1) (Finite sg2 m2 e2) = Infinity sg1"
| "double_add (Infinity sg1) (Infinity sg2) = (if sg1 = sg2 then Infinity sg1 else NaN)"
| "double_add NaN y = NaN"
| "double_add x NaN = NaN"

fun double_add_num :: "double pynum \<Rightarrow> double pynum \<Rightarrow> double pynum" where
  "double_add_num (PInt i) (PInt j) = PInt (i + j)"
| "double_add_num (PInt i) (PFloat y) = PFloat (double_add (double_of_ratio (i < 0) (nat \<bar>i\<bar>) 1) y)"
| "double_add_num (PFloat x) (PInt j) = PFloat (double_add x (double_of_ratio (j < 0) (nat \<bar>j\<bar>) 1))"
| "double_add_num (PFloat x) (PFloat y) = PFloat (double_add x y)"

fun double_truediv :: "double pynum \<Rightarrow> int \<Rightarrow> double" where
  "double_truediv (PInt i) d = double_of_ratio (i < 0) (nat \<bar>i\<bar>) (nat d)"
| "double_truediv (PFloat (Finite sg m e)) d =
     (if 0 \<le> e then double_of_ratio sg (m * 2 ^ nat e) (nat d)
      else double_of_ratio sg m (nat d * 2 ^ nat (- e)))"
| "double_truediv (PFloat (Infinity sg)) d = Infinity sg"
| "double_truediv (PFloat NaN) d = NaN"

text \<open>
  The library instance with these doubles, on ASCII inputs: \<^verbatim>\<open>sum\<close> adds from the int
  \<open>0\<close> on, from left to right.
\<close>

definition double_lib :: "double pylib" where
  "double_lib = \<lparr> uni_alnum = (\<lambda>c. False), uni_decimal = (\<lambda>c. False),
     float_of_str = double_of_str,
     py_sum = (\<lambda>xs. foldl double_add_num (PInt 0) xs),
     truediv = double_truediv,
     format_1f = double_format_1f,
     json_loads = (\<lambda>s. None),
     py_repr = (\<lambda>v. []),
     markdown = (\<lambda>s. None) \<rparr>"

text \<open>
  A report whose one step has a duration of 400 digits, its record, and a record with
  the durations 1.5 and 2.5.
\<close>

definition overflow_text :: ustring where
  "overflow_text = u ''STEP: a\<newline>Duration: '' @ replicate 400 57 @ u ''s\<newline>Result: SUCCESS''"

definition overflow_info :: "double test_info" where
  "overflow_info = empty_info \<lparr>
     steps := Some [\<lparr> step_name = u ''a'', step_duration = Infinity False,
                      step_status = u ''SUCCESS'' \<rparr>],
     total_duration := Some (PFloat (Infinity False)) \<rparr>"

definition two_step_doubles :: "double test_info" where
  "two_step_doubles = empty_info \<lparr>
     steps := Some [\<lparr> step_name = u ''plan'', step_duration = Finite False 3 (- 1),
                      step_status = u ''SUCCESS'' \<rparr>,
                    \<lparr> step_name = u ''write'', step_duration = Finite False 5 (- 1),
                      step_status = u ''FAILED'' \<rparr>],
     total_duration := Some (PFloat (Finite False 4 0)) \<rparr>"

text \<open>A file of 12000 ASCII letters.\<close>

definition ascii_file :: "byte list" where
  "ascii_file = replicate 12000 120"

text \<open>
  A text shows a number with one decimal place when it is an optional minus sign, at
  least one digit, a dot and one digit.
\<close>

definition ascii_digit :: "nat \<Rightarrow> bool" where
  "ascii_digit c = (48 \<le> c \<and> c \<le> 57)"

fun unsigned :: "ustring \<Rightarrow> ustring" where
  "unsigned [] = []"
| "unsigned (c # s) = (if c = 45 then s else c # s)"

fun digit_dot_digits :: "ustring \<Rightarrow> bool" where
  "digit_dot_digits (d # p # ds) = (ascii_digit d \<and> p = 46 \<and> ds \<noteq> [] \<and> list_all ascii_digit ds)"
| "digit_dot_digits _ = False"

definition one_decimal_place :: "ustring \<Rightarrow> bool" where
  "one_decimal_place s = digit_dot_digits (rev (unsigned s))"

section \<open>The matcher finds the matches\<close>

lemma ext_Some: "ext x m = Some (gs, r) \<Longrightarrow> \<exists>g gs'. gs = (x # g) # gs' \<and> (m = Some (g # gs', r) \<or> (m = Some ([], r) \<and> g = [] \<and> gs' = []))"
  by (cases "(x, m)" rule: ext.cases) auto

lemma seg_Some: "seg g m = Some (gs, r) \<Longrightarrow> \<exists>gs'. gs = g # gs' \<and> m = Some (gs', r)"
  by (cases "(g, m)" rule: seg.cases) auto

lemma rmatch_sound:
  "rmatch p s = Some (gs, r) \<Longrightarrow> s = concat gs @ r \<and> segs_ok p gs r"
proof (induction p s arbitrary: gs r rule: rmatch.induct)
  case (1 s)
  then show ?case by simp
next
  case (2 l p s)
  then show ?case
    by (auto split: if_splits dest!: seg_Some) (metis append_take_drop_id)
next
  case (3 as p s)
  then show ?case
    by (auto split: if_splits dest!: seg_Some)
next
  case (4 q c p)
  then show ?case by simp
next
  case (5 q c p x xs)
  then show ?case
    by (cases q) (auto split: if_splits dest!: ext_Some)
next
  case (6 c p)
  then show ?case by (auto dest!: seg_Some)
next
  case (7 c p x xs)
  then show ?case
    by (auto split: option.splits if_splits dest!: ext_Some)
next
  case (8 c p)
  then show ?case by (auto dest!: seg_Some)
next
  case (9 c p x xs)
  then show ?case
    by (auto split: option.splits if_splits dest!: ext_Some seg_Some)
qed

lemma ext_None: "ext x m = None \<longleftrightarrow> m = None"
  by (cases "(x, m)" rule: ext.cases) auto

lemma seg_None: "seg g m = None \<longleftrightarrow> m = None"
  by (cases "(g, m)" rule: seg.cases) auto

lemma rmatch_complete:
  "rmatch p s = None \<Longrightarrow> s = concat gs @ r \<Longrightarrow> \<not> segs_ok p gs r"
proof (induction p s arbitrary: gs r rule: rmatch.induct)
  case (1 s)
  then show ?case by simp
next
  case (2 l p s)
  show ?case
  proof
    assume ok: "segs_ok (Lit l # p) gs r"
    then obtain gs' where gs: "gs = l # gs'" and ok': "segs_ok p gs' r"
      by (cases gs) auto
    from gs "2.prems"(2) have s: "s = l @ concat gs' @ r" by simp
    then have t: "take (length l) s = l" and d: "drop (length l) s = concat gs' @ r" by simp_all
    from "2.prems"(1) t have "rmatch p (drop (length l) s) = None"
      by (simp add: seg_None)
    from "2.IH" [OF t this d] ok' show False by simp
  qed
next
  case (3 as p s)
  show ?case
  proof
    assume ok: "segs_ok (Ahead as # p) gs r"
    then obtain gs' where gs: "gs = [] # gs'" and ok': "segs_ok p gs' r"
      and ah: "list_ex (\<lambda>a. ahead_holds a (concat gs' @ r)) as"
      by (cases gs) auto
    from gs "3.prems"(2) have s: "s = concat gs' @ r" by simp
    with ah have a: "list_ex (\<lambda>a. ahead_holds a s) as" by simp
    from "3.prems"(1) a have "rmatch p s = None" by (simp add: seg_None)
    from "3.IH" [OF a this s] ok' show False by simp
  qed
next
  case (4 q c p)
  then show ?case by (cases gs) auto
next
  case (5 q c p x xs)
  show ?case
  proof
    assume ok: "segs_ok (Plus q c # p) gs r"
    then obtain g gs' where gs: "gs = g # gs'" and g: "g \<noteq> []" "list_all c g" and ok': "segs_ok p gs' r"
      by (cases gs) auto
    from g(1) obtain y g' where g': "g = y # g'" by (cases g) auto
    from gs g' "5.prems"(2) have xy: "y = x" and xs: "xs = concat (g' # gs') @ r" by simp_all
    from g g' xy have cx: "c x" and cg: "list_all c g'" by simp_all
    from "5.prems"(1) cx have "rmatch (Star q c # p) xs = None" by (simp add: ext_None)
    from "5.IH" [OF cx this xs] cg ok' show False by simp
  qed
next
  case (6 c p)
  then show ?case by (cases gs) (auto simp: seg_None)
next
  case (7 c p x xs)
  show ?case
  proof
    assume ok: "segs_ok (Star Lazy c # p) gs r"
    then obtain g gs' where gs: "gs = g # gs'" and g: "list_all c g" and ok': "segs_ok p gs' r"
      by (cases gs) auto
    from "7.prems"(1) have n1: "rmatch p (x # xs) = None"
      by (auto split: option.splits)
    show False
    proof (cases g)
      case Nil
      with gs "7.prems"(2) have "x # xs = concat gs' @ r" by simp
      from "7.IH"(1) [OF n1 this] ok' show False by simp
    next
      case (Cons y g')
      with gs "7.prems"(2) have xy: "y = x" and xs: "xs = concat (g' # gs') @ r" by simp_all
      from g Cons xy have cx: "c x" and cg: "list_all c g'" by simp_all
      from "7.prems"(1) n1 cx have "rmatch (Star Lazy c # p) xs = None" by (simp add: ext_None)
      from "7.IH"(2) [OF n1 cx this xs] cg ok' show False by simp
    qed
  qed
next
  case (8 c p)
  then show ?case by (cases gs) (auto simp: seg_None)
next
  case (9 c p x xs)
  show ?case
  proof
    assume ok: "segs_ok (Star Greedy c # p) gs r"
    then obtain g gs' where gs: "gs = g # gs'" and g: "list_all c g" and ok': "segs_ok p gs' r"
      by (cases gs) auto
    from "9.prems"(1) have n0: "(if c x then ext x (rmatch (Star Greedy c # p) xs) else None) = None"
      and n1: "rmatch p (x # xs) = None"
      by (auto split: option.splits simp: seg_None)
    show False
    proof (cases g)
      case Nil
      with gs "9.prems"(2) have "x # xs = concat gs' @ r" by simp
      from "9.IH"(2) [OF n0 n1 this] ok' show False by simp
    next
      case (Cons y g')
      with gs "9.prems"(2) have xy: "y = x" and xs: "xs = concat (g' # gs') @ r" by simp_all
      from g Cons xy have cx: "c x" and cg: "list_all c g'" by simp_all
      from n0 cx have "rmatch (Star Greedy c # p) xs = None" by (simp add: ext_None)
      from "9.IH"(1) [OF cx this xs] cg ok' show False by simp
    qed
  qed
qed

lemma matches_at_iff:
  "matches_at p s i \<longleftrightarrow> i \<le> length s \<and> (\<exists>gs r. drop i s = concat gs @ r \<and> segs_ok p gs r)"
proof -
  have "rmatch p t \<noteq> None \<longleftrightarrow> (\<exists>gs r. t = concat gs @ r \<and> segs_ok p gs r)" for t
  proof
    assume "rmatch p t \<noteq> None"
    then obtain gs r where "rmatch p t = Some (gs, r)" by auto
    from rmatch_sound [OF this] show "\<exists>gs r. t = concat gs @ r \<and> segs_ok p gs r" by blast
  next
    assume "\<exists>gs r. t = concat gs @ r \<and> segs_ok p gs r"
    then show "rmatch p t \<noteq> None" using rmatch_complete by blast
  qed
  then show ?thesis by (simp add: matches_at_def)
qed

lemma skip_Some: "skip x m = Some (pre, gs, r) \<Longrightarrow> \<exists>pre'. pre = x # pre' \<and> m = Some (pre', gs, r)"
  by (cases "(x, m)" rule: skip.cases) auto

lemma skip_None: "skip x m = None \<longleftrightarrow> m = None"
  by (cases "(x, m)" rule: skip.cases) auto

lemma re_search_Some:
  "re_search p s = Some (pre, gs, r) \<Longrightarrow>
     s = pre @ concat gs @ r \<and> rmatch p (drop (length pre) s) = Some (gs, r)
     \<and> (\<forall>i < length pre. \<not> matches_at p s i)"
proof (induction s arbitrary: pre)
  case Nil
  then show ?case
    by (auto split: option.splits dest: rmatch_sound)
next
  case (Cons x xs)
  show ?case
  proof (cases "rmatch p (x # xs)")
    case (Some m)
    with Cons.prems have "pre = []" "m = (gs, r)" by auto
    with Some show ?thesis by (auto dest: rmatch_sound)
  next
    case None
    with Cons.prems obtain pre' where pre: "pre = x # pre'" and s: "re_search p xs = Some (pre', gs, r)"
      by (auto dest: skip_Some)
    from Cons.IH [OF s] have ih: "xs = pre' @ concat gs @ r"
      "rmatch p (drop (length pre') xs) = Some (gs, r)"
      "\<forall>i < length pre'. \<not> matches_at p xs i" by blast+
    have "\<not> matches_at p (x # xs) i" if "i < length pre" for i
    proof (cases i)
      case 0
      with None show ?thesis by (simp add: matches_at_def)
    next
      case (Suc j)
      with that pre have "j < length pre'" by simp
      with ih(3) have "\<not> matches_at p xs j" by simp
      with Suc show ?thesis by (simp add: matches_at_def)
    qed
    with ih pre show ?thesis by simp
  qed
qed

lemma re_search_None:
  "re_search p s = None \<Longrightarrow> \<not> matches_at p s i"
proof (induction s arbitrary: i)
  case Nil
  then show ?case by (auto simp: matches_at_def split: option.splits)
next
  case (Cons x xs)
  from Cons.prems have n: "rmatch p (x # xs) = None" and s: "re_search p xs = None"
    by (auto split: option.splits simp: skip_None)
  show ?case
  proof (cases i)
    case 0
    with n show ?thesis by (simp add: matches_at_def)
  next
    case (Suc j)
    from Cons.IH [OF s, of j] Suc show ?thesis by (simp add: matches_at_def)
  qed
qed

lemma finditer_Some:
  assumes "re_search p s = Some (pre, gs, r)" and "concat gs \<noteq> []"
  shows "finditer p s = (pre, gs) # finditer p r"
proof -
  from re_search_Some [OF assms(1)] have "s = pre @ concat gs @ r" by simp
  with assms(2) have "length r < length s" by (cases "concat gs") auto
  with assms(1) show ?thesis by (subst finditer.simps) simp
qed

lemma finditer_None: "re_search p s = None \<Longrightarrow> finditer p s = []"
  by (subst finditer.simps) simp

lemma finditer_located:
  assumes "consuming p"
  shows "(\<forall>(a, b, gs) \<in> set (locate off (finditer p s)).
            off \<le> a \<and> a < b \<and> b \<le> off + length s
            \<and> rmatch p (drop (a - off) s) = Some (gs, drop (b - off) s)
            \<and> concat gs = take (b - a) (drop (a - off) s))
       \<and> sorted_wrt (\<lambda>x y. fst (snd x) \<le> fst y) (locate off (finditer p s))
       \<and> (\<forall>i. matches_at p s i \<longrightarrow>
             (\<exists>(a, b, gs) \<in> set (locate off (finditer p s)). a \<le> off + i \<and> off + i < b))"
proof (induction "length s" arbitrary: s off rule: less_induct)
  case less
  show ?case
  proof (cases "re_search p s")
    case None
    then show ?thesis by (simp add: finditer_None re_search_None)
  next
    case (Some m)
    obtain pre gs r where m: "m = (pre, gs, r)" by (cases m) auto
    from re_search_Some [OF Some [unfolded m]] have s: "s = pre @ concat gs @ r"
      and rm: "rmatch p (drop (length pre) s) = Some (gs, r)"
      and first: "\<forall>i < length pre. \<not> matches_at p s i" by blast+
    from rmatch_sound [OF rm] assms have ne: "concat gs \<noteq> []" by (auto simp: consuming_def)
    then have lg: "0 < length (concat gs)" by simp
    from s lg have lr: "length r < length s"
      by (metis add_strict_increasing2 length_append less_add_same_cancel2 zero_le)
    have f: "finditer p s = (pre, gs) # finditer p r"
      using finditer_Some [OF Some [unfolded m] ne] .
    let ?b = "off + length pre + length (concat gs)"
    note ih = less [OF lr, of ?b]
    have dr: "drop (length pre + length (concat gs)) s = r" using s by simp
    have d1: "drop (length pre) s = concat gs @ r" using s by simp
    have A: "\<forall>(a, b, gs) \<in> set (locate off (finditer p s)).
            off \<le> a \<and> a < b \<and> b \<le> off + length s
            \<and> rmatch p (drop (a - off) s) = Some (gs, drop (b - off) s)
            \<and> concat gs = take (b - a) (drop (a - off) s)"
    proof -
      have hd: "off \<le> off + length pre \<and> off + length pre < ?b \<and> ?b \<le> off + length s
            \<and> rmatch p (drop (off + length pre - off) s) = Some (gs, drop (?b - off) s)
            \<and> concat gs = take (?b - (off + length pre)) (drop (off + length pre - off) s)"
        using lg rm dr d1 s by (simp add: add.assoc)
      have tl: "off \<le> a \<and> a < b \<and> b \<le> off + length s
            \<and> rmatch p (drop (a - off) s) = Some (gs', drop (b - off) s)
            \<and> concat gs' = take (b - a) (drop (a - off) s)"
        if "(a, b, gs') \<in> set (locate ?b (finditer p r))" for a b gs'
      proof -
        from ih that have t: "?b \<le> a" "a < b" "b \<le> ?b + length r"
          "rmatch p (drop (a - ?b) r) = Some (gs', drop (b - ?b) r)"
          "concat gs' = take (b - a) (drop (a - ?b) r)" by auto
        have e1: "drop (a - off) s = drop (a - ?b) r"
        proof -
          from t(1) have "a - off = (length pre + length (concat gs)) + (a - ?b)" by simp
          then have "drop (a - off) s = drop (a - ?b) (drop (length pre + length (concat gs)) s)"
            by (simp add: add.commute)
          with dr show ?thesis by simp
        qed
        have e2: "drop (b - off) s = drop (b - ?b) r"
        proof -
          from t(1,2) have "b - off = (length pre + length (concat gs)) + (b - ?b)" by simp
          then have "drop (b - off) s = drop (b - ?b) (drop (length pre + length (concat gs)) s)"
            by (simp add: add.commute)
          with dr show ?thesis by simp
        qed
        have "length s = length pre + length (concat gs) + length r" using s by simp
        with t e1 e2 show ?thesis by simp
      qed
      from hd tl show ?thesis unfolding f by auto
    qed
    have B: "sorted_wrt (\<lambda>x y. fst (snd x) \<le> fst y) (locate off (finditer p s))"
    proof -
      from ih have "sorted_wrt (\<lambda>x y. fst (snd x) \<le> fst y) (locate ?b (finditer p r))" by simp
      moreover from ih have "\<forall>y \<in> set (locate ?b (finditer p r)). ?b \<le> fst y" by auto
      ultimately show ?thesis unfolding f by simp
    qed
    have C: "\<exists>(a, b, gs) \<in> set (locate off (finditer p s)). a \<le> off + i \<and> off + i < b"
      if mi: "matches_at p s i" for i
    proof -
      from first mi have ge: "length pre \<le> i" by (meson not_le)
      show ?thesis
      proof (cases "i < length pre + length (concat gs)")
        case True
        with ge show ?thesis unfolding f by simp
      next
        case False
        then have i: "i = (length pre + length (concat gs)) + (i - (length pre + length (concat gs)))"
          by simp
        have "drop i s = drop (i - (length pre + length (concat gs))) r"
          by (subst i, subst add.commute, subst drop_drop [symmetric]) (simp only: dr)
        moreover have "i - (length pre + length (concat gs)) \<le> length r"
        proof -
          from mi have "i \<le> length s" by (simp add: matches_at_def)
          also have "length s = length pre + length (concat gs) + length r" using s by simp
          finally show ?thesis by arith
        qed
        ultimately have "matches_at p r (i - (length pre + length (concat gs)))"
          using mi by (simp add: matches_at_def)
        with ih obtain a b gs' where
          "(a, b, gs') \<in> set (locate ?b (finditer p r))"
          "a \<le> ?b + (i - (length pre + length (concat gs)))"
          "?b + (i - (length pre + length (concat gs))) < b" by blast
        with False show ?thesis unfolding f by auto
      qed
    qed
    from A B C show ?thesis by blast
  qed
qed


section \<open>Evaluation and search lemmas\<close>

lemma u_simps: "u [] = []" "u (c # cs) = of_char c # u cs"
  by (simp_all add: u_def)

lemmas class_defs = is_word_def is_digit_def digit_or_dot_def ascii_alnum_def not_newline_def
  any_char_def

lemma re_search_first:
  "rmatch p t = Some (gs, r) \<Longrightarrow> \<forall>i < length pre. \<not> matches_at p (pre @ t) i \<Longrightarrow>
     re_search p (pre @ t) = Some (pre, gs, r)"
proof (induction pre)
  case Nil
  then show ?case by (cases t) simp_all
next
  case (Cons x pre)
  from Cons.prems(2) have "\<not> matches_at p (x # pre @ t) 0" by auto
  then have n: "rmatch p (x # pre @ t) = None"
    by (cases "rmatch p (x # pre @ t)") (simp_all add: matches_at_def)
  have "\<not> matches_at p (pre @ t) i" if "i < length pre" for i
    using Cons.prems(2) that by (auto simp: matches_at_def dest: spec [of _ "Suc i"])
  with Cons.IH [OF Cons.prems(1)] have "re_search p (pre @ t) = Some (pre, gs, r)" by simp
  with n show ?case by simp
qed

lemma rmatch_star_greedy_last:
  "list_all c g \<Longrightarrow> \<forall>y ys. r = y # ys \<longrightarrow> \<not> c y \<Longrightarrow>
     rmatch [Star Greedy c] (g @ r) = Some ([g], r)"
proof (induction g)
  case Nil
  then show ?case by (cases r) simp_all
next
  case (Cons x g)
  then show ?case by simp
qed

lemma rmatch_plus_greedy_last:
  "g \<noteq> [] \<Longrightarrow> list_all c g \<Longrightarrow> \<forall>y ys. r = y # ys \<longrightarrow> \<not> c y \<Longrightarrow>
     rmatch [Plus Greedy c] (g @ r) = Some ([g], r)"
  by (cases g) (simp_all add: rmatch_star_greedy_last)

lemma extract_name:
  assumes "extract_test_info L md = Inr info"
  shows "name info = name (extract_title L md empty_info)"
    and "name_heb info = name_heb (extract_title L md empty_info)"
  using assms
  by (auto simp: extract_test_info_def Let_def extract_final_output_def
      extract_activity_details_def extract_user_request_def extract_model_def
      split: sum.splits option.splits)


lemmas extract_defs = extract_test_info_def extract_final_output_def
  extract_activity_details_def extract_user_request_def extract_model_def extract_title_def
  title_pattern_def config_pattern_def request_pattern_def json_pattern_def
  final_output_pattern_def fallback_pattern_def step_pattern_def
  step_of_match_def match_group_def float_accepts_def strip_def is_space_def Let_def


section \<open>The pages\<close>

lemma foldl_append_rows: "foldl (\<lambda>html x. html @ f x) acc xs = acc @ concat (map f xs)"
  by (induction xs arbitrary: acc) simp_all

lemma generate_test_html_page:
  assumes "generate_test_html L now test md = Inr page"
  shows "\<exists>a g v. page = HTML_TEMPLATE_format (display_name test) (test_content L test a g v)
           (strftime_dmy now)"
  using assms
  by (auto simp: generate_test_html_def Let_def split: sum.splits)

lemmas render_defs = generate_test_html_def table_get_def obj_get_def join_json_def fstr_def
  display_name_def Let_def

lemma generate_test_html_two_step:
  "generate_test_html demo_lib demo_now two_step_info [] =
     Inr (HTML_TEMPLATE_format (u ''Sample_Test'') (test_content demo_lib two_step_info [] [] [])
            (strftime_dmy demo_now))"
  by (simp add: render_defs two_step_info_def empty_info_def ACTIVITY_TYPES_HEB_def
      AGE_GROUPS_HEB_def u_simps)

lemma tests_html_rows:
  "tests_html L html tests = Inr out \<Longrightarrow> \<exists>rows. out = html @ rows @ u ''</div>''"
proof (induction tests arbitrary: html)
  case Nil
  then show ?case by auto
next
  case (Cons t ts)
  then obtain item where i: "test_item L t = Inr item" and r: "tests_html L (html @ item) ts = Inr out"
    by (auto split: sum.splits)
  from Cons.IH [OF r] show ?case by auto
qed


section \<open>The steps of a record\<close>

lemma collect_steps_Inr:
  "collect_steps L acc ms = Inr ss \<Longrightarrow>
     ss = acc @ map (\<lambda>m. \<lparr> step_name = match_group (snd m) 1 2,
                          step_duration = float_of_str L (match_group (snd m) 5 6),
                          step_status = match_group (snd m) 9 10 \<rparr>) ms
     \<and> list_all (\<lambda>m. float_accepts L (match_group (snd m) 5 6)) ms"
proof (induction ms arbitrary: acc)
  case Nil
  then show ?case by simp
next
  case (Cons m ms)
  from Cons.prems obtain st where st: "step_of_match L m = Inr st"
    and r: "collect_steps L (acc @ [st]) ms = Inr ss"
    by (auto split: sum.splits)
  from st have "float_accepts L (match_group (snd m) 5 6)"
    and "st = \<lparr> step_name = match_group (snd m) 1 2,
                 step_duration = float_of_str L (match_group (snd m) 5 6),
                 step_status = match_group (snd m) 9 10 \<rparr>"
    by (auto simp: step_of_match_def split: if_splits)
  with Cons.IH [OF r] show ?case by simp
qed

lemma locate_map:
  "map (\<lambda>(a, b, gs). f gs) (locate off ms) = map (\<lambda>m. f (snd m)) ms"
  by (induction ms arbitrary: off) simp_all

lemma locate_groups:
  "list_all (\<lambda>m. P (snd m)) ms \<longleftrightarrow> (\<forall>(a, b, gs) \<in> set (locate off ms). P gs)"
  by (induction ms arbitrary: off) simp_all

lemma consuming_step_pattern: "consuming (step_pattern L)"
proof -
  have "concat gs \<noteq> []" if "segs_ok (step_pattern L) gs r" for gs r
    using that by (cases gs) (auto simp: step_pattern_def u_simps)
  then show ?thesis by (simp add: consuming_def)
qed

lemma extract_steps:
  assumes "extract_test_info L md = Inr info"
  shows "\<exists>ss. collect_steps L [] (finditer (step_pattern L) md) = Inr ss
       \<and> steps info = Some ss
       \<and> total_duration info = Some (if ss \<noteq> [] then py_sum L (map (\<lambda>s. PFloat (step_duration s)) ss)
                                      else PInt 0)"
proof (cases "collect_steps L [] (finditer (step_pattern L) md)")
  case (Inl e)
  with assms show ?thesis by (simp add: extract_test_info_def)
next
  case (Inr ss)
  with assms obtain i where "i \<lparr> steps := Some ss,
      total_duration := Some (if ss \<noteq> [] then py_sum L (map (\<lambda>s. PFloat (step_duration s)) ss)
                              else PInt 0) \<rparr> = info"
    by (simp add: extract_test_info_def)
  from this [symmetric] Inr show ?thesis by simp
qed


section \<open>Reading a file\<close>

lemma rmatch_lit_absent: "a \<notin> set s \<Longrightarrow> rmatch (Lit (a # l) # p) s = None"
  by (cases s) auto

lemma re_search_lit_absent: "a \<notin> set s \<Longrightarrow> re_search (Lit (a # l) # p) s = None"
  by (induction s) (simp_all add: rmatch_lit_absent)

lemma extract_no_pattern:
  assumes "35 \<notin> set s" "124 \<notin> set s" "42 \<notin> set s" "96 \<notin> set s" "83 \<notin> set s"
  shows "extract_test_info L s = Inr (empty_info \<lparr> steps := Some [], total_duration := Some (PInt 0) \<rparr>)"
  using assms
  by (simp add: extract_defs u_simps re_search_lit_absent finditer_None)

lemma utf8_decode_alef: "utf8_decode (concat (replicate n [215, 144])) = Some (replicate n 1488)"
  by (induction n) (simp_all add: is_cont_def cont_def)

lemma utf8_decode_x: "utf8_decode (replicate n 120) = Some (replicate n 120)"
  by (induction n) simp_all

lemma translate_newlines_no_cr: "13 \<notin> set s \<Longrightarrow> translate_newlines s = s"
  by (induction s rule: translate_newlines.induct) auto

lemma utf8_decode_ascii:
  "\<forall>b \<in> set bs. unat b < 128 \<Longrightarrow> utf8_decode bs = Some (map unat bs)"
  by (induction bs) simp_all


section \<open>The run and the clock\<close>

lemma generate_test_html_date:
  assumes "strftime_dmy now1 = strftime_dmy now2"
  shows "generate_test_html L now1 test md = generate_test_html L now2 test md"
  unfolding generate_test_html_def assms by (rule refl)

lemma generate_index_html_date:
  assumes "strftime_dmy now1 = strftime_dmy now2"
  shows "generate_index_html L now1 tests = generate_index_html L now2 tests"
  unfolding generate_index_html_def assms by (rule refl)

lemma process_file_date:
  assumes "strftime_dmy now1 = strftime_dmy now2"
  shows "process_file L now1 f = process_file L now2 f"
  unfolding process_file_def generate_test_html_date [OF assms] by (rule refl)

lemma main_loop_date:
  "\<forall>k. length tests \<le> k \<and> k \<le> length tests + length files \<longrightarrow>
       strftime_dmy (clock1 k) = strftime_dmy (clock2 k) \<Longrightarrow>
     main_loop L clock1 files tests written = main_loop L clock2 files tests written"
proof (induction files arbitrary: tests written)
  case Nil
  then have d: "strftime_dmy (clock1 (length tests)) = strftime_dmy (clock2 (length tests))" by simp
  show ?case
    unfolding main_loop.simps generate_index_html_date [OF d] by (rule refl)
next
  case (Cons f files)
  from Cons.prems have "strftime_dmy (clock1 (length tests)) = strftime_dmy (clock2 (length tests))"
    by simp
  from process_file_date [OF this]
  have p: "process_file L (clock1 (length tests)) f = process_file L (clock2 (length tests)) f" .
  show ?case
  proof (cases "process_file L (clock2 (length tests)) f")
    case (Inl e)
    with p show ?thesis by simp
  next
    case (Inr r)
    obtain test_info page where r: "r = (test_info, page)" by (cases r) auto
    have "main_loop L clock1 files (tests @ [test_info]) (written @ [page])
        = main_loop L clock2 files (tests @ [test_info]) (written @ [page])"
      by (rule Cons.IH) (use Cons.prems in auto)
    with p Inr r show ?thesis by simp
  qed
qed

lemma encodable_append: "encodable (a @ b) \<longleftrightarrow> encodable a \<and> encodable b"
  by (simp add: encodable_def)

lemma encodable_u: "encodable (u s)"
proof -
  have "(of_char c :: nat) < 55296" for c
  proof -
    have "(of_char c :: nat) < 256"
      by (metis of_char_mod_256 mod_less_divisor zero_less_numeral)
    then show ?thesis by (rule less_trans) simp
  qed
  then show ?thesis by (simp add: encodable_def u_def list_all_iff)
qed

lemma encodable_Cons: "encodable (c # s) \<longleftrightarrow> (c < 55296 \<or> (57344 \<le> c \<and> c < 1114112)) \<and> encodable s"
  by (simp add: encodable_def)

lemma encodable_Nil: "encodable []"
  by (simp add: encodable_def)

lemmas encodable_simps = encodable_append encodable_u encodable_Cons encodable_Nil

lemma encodable_template:
  "encodable HTML_TEMPLATE_0" "encodable HTML_TEMPLATE_1" "encodable HTML_TEMPLATE_2"
  "encodable HTML_TEMPLATE_3"
  by (simp_all add: HTML_TEMPLATE_0_def HTML_TEMPLATE_1_def HTML_TEMPLATE_2_def
      HTML_TEMPLATE_3_def encodable_simps)

lemma encodable_index:
  "encodable index_content_0" "encodable index_content_1" "encodable index_content_2"
  "encodable stats_html_0" "encodable stats_html_1" "encodable stats_html_2"
  "encodable stats_html_3" "encodable stats_html_4" "encodable index_title"
  by (simp_all add: index_content_0_def index_content_1_def index_content_2_def
      stats_html_0_def stats_html_1_def stats_html_2_def stats_html_3_def stats_html_4_def
      index_title_def encodable_simps)


lemma strftime_demo:
  "strftime_dmy demo_now = u ''27/11/2025''"
  "strftime_dmy (demo_now \<lparr> day := 28 \<rparr>) = u ''28/11/2025''"
  "strftime_dmy (demo_now \<lparr> hour := 12 \<rparr>) = u ''27/11/2025''"
  by (simp_all add: strftime_dmy_def demo_now_def zero_pad_def str_nat.simps u_simps)

lemma generate_index_html_empty:
  "generate_index_html demo_lib now [] =
     Inr (HTML_TEMPLATE_format index_title empty_index_content (strftime_dmy now))"
  by (simp add: generate_index_html_def stats_html_def empty_index_content_def demo_lib_def
      exact_format_1f_def round_half_even_def str_int_def str_nat.simps u_simps Let_def)

lemma encodable_empty_index: "encodable empty_index_content"
  by (simp add: empty_index_content_def encodable_simps encodable_index)

lemma main_empty:
  assumes "strftime_dmy (clock 0) = u s"
  shows "main demo_lib clock [] =
     ([(u ''index.html'', HTML_TEMPLATE_format index_title empty_index_content (u s))], None)"
  using assms
  by (simp add: main_def generate_index_html_empty write_text_def HTML_TEMPLATE_format_def
      encodable_simps encodable_index encodable_template encodable_empty_index)

lemma HTML_TEMPLATE_format_date:
  "HTML_TEMPLATE_format title content d1 = HTML_TEMPLATE_format title content d2 \<longleftrightarrow> d1 = d2"
  by (simp add: HTML_TEMPLATE_format_def)


section \<open>The format of a double\<close>

lemma str_nat_digits: "str_nat n \<noteq> [] \<and> list_all ascii_digit (str_nat n)"
proof (induction n rule: str_nat.induct)
  case (1 n)
  show ?case
  proof (cases "n < 10")
    case True
    then show ?thesis by (subst (1 2) str_nat.simps) (simp add: ascii_digit_def)
  next
    case False
    with 1 have "str_nat (n div 10) \<noteq> [] \<and> list_all ascii_digit (str_nat (n div 10))" by simp
    moreover have "n mod 10 < 10" by simp
    ultimately show ?thesis using False
      by (subst (1 2) str_nat.simps) (simp add: ascii_digit_def)
  qed
qed

lemma unsigned_digits: "s \<noteq> [] \<Longrightarrow> list_all ascii_digit s \<Longrightarrow> unsigned (s @ t) = s @ t"
  by (cases s) (auto simp: ascii_digit_def)

lemma one_decimal_place_finite: "one_decimal_place (double_format_1f (Finite sg m e))"
proof -
  define n where "n = (if 0 \<le> e then m * 10 * 2 ^ nat e else rdiv (m * 10) (2 ^ nat (- e)))"
  have f: "double_format_1f (Finite sg m e)
      = (if sg then u ''-'' else []) @ str_nat (n div 10) @ [46, 48 + n mod 10]"
    by (simp add: double_format_1f_def n_def Let_def)
  have u: "unsigned ((if sg then u ''-'' else []) @ str_nat (n div 10) @ [46, 48 + n mod 10])
      = str_nat (n div 10) @ [46, 48 + n mod 10]"
    using str_nat_digits [of "n div 10"] by (simp add: u_simps unsigned_digits)
  have "n mod 10 < 10" by simp
  then have d: "ascii_digit (48 + n mod 10)" by (simp add: ascii_digit_def)
  show ?thesis
    unfolding one_decimal_place_def f u using d str_nat_digits [of "n div 10"] by simp
qed

lemma not_one_decimal_place:
  "\<not> one_decimal_place (u ''inf'')" "\<not> one_decimal_place (u ''-inf'')"
  "\<not> one_decimal_place (u ''nan'')"
  by (simp_all add: one_decimal_place_def u_simps ascii_digit_def)

lemma double_format_1f_other:
  "double_format_1f (Infinity sg) = (if sg then u ''-inf'' else u ''inf'')"
  "double_format_1f NaN = u ''nan''"
  by (simp_all add: double_format_1f_def u_simps)


section \<open>A number beyond the range of the doubles\<close>

lemma bit_length_bounds: "0 < n \<Longrightarrow> 2 ^ (bit_length n - 1) \<le> n \<and> n < 2 ^ bit_length n"
proof (induction n rule: bit_length.induct)
  case (1 n)
  show ?case
  proof (cases "n div 2 = 0")
    case True
    with "1.prems" have "n = 1" by (metis One_nat_def Suc_lessI div_2_gt_zero not_gr_zero)
    then show ?thesis by (simp add: bit_length.simps)
  next
    case False
    with 1 have ih: "2 ^ (bit_length (n div 2) - 1) \<le> n div 2" "n div 2 < 2 ^ bit_length (n div 2)"
      by simp_all
    from False have pos: "0 < bit_length (n div 2)" by (subst bit_length.simps) simp
    have b: "bit_length n = Suc (bit_length (n div 2))"
      using "1.prems" by (subst bit_length.simps) simp
    from pos have "(2::nat) ^ bit_length (n div 2) = 2 * 2 ^ (bit_length (n div 2) - 1)"
      by (cases "bit_length (n div 2)") simp_all
    with ih show ?thesis unfolding b by simp linarith
  qed
qed

lemma double_of_ratio_overflow:
  assumes "2 ^ 1024 \<le> n"
  shows "double_of_ratio sg n 1 = Infinity sg"
proof -
  from assms have pos: "0 < n" by (metis zero_less_numeral zero_less_power less_le_trans)
  from bit_length_bounds [OF pos] have lo: "2 ^ (bit_length n - 1) \<le> n" and hi: "n < 2 ^ bit_length n"
    by simp_all
  have lt: "(2::nat) ^ 1024 < 2 ^ bit_length n" by (rule le_less_trans [OF assms hi])
  have "(1::nat) < 2" by simp
  from power_less_imp_less_exp [OF this lt] have big: "1024 < bit_length n" .
  have one: "bit_length 1 = 1" "bit_length (Suc 0) = Suc 0" by (simp_all add: bit_length.simps)
  define k where "k = int (bit_length n) - int (bit_length 1)"
  have k: "k = int (bit_length n - 1)" using big by (simp add: k_def one)
  then have k0: "0 \<le> k" and kn: "nat k = bit_length n - 1" by simp_all
  have e0: "(if (if 0 \<le> k then 1 * 2 ^ nat k \<le> n else 1 \<le> n * 2 ^ nat (- k)) then k else k - 1) = k"
    using k0 kn lo by simp
  have gt: "971 < max k (- 1022) - 52" using k big by simp
  have n0: "n \<noteq> 0" using pos by simp
  show ?thesis
    unfolding double_of_ratio_def Let_def k_def [symmetric] e0
    by (simp only: n0 gt if_False if_True)
qed

lemma digits_value_nines:
  "foldl (\<lambda>a c. a * 10 + (c - 48)) (a::nat) (replicate n 57) = (a + 1) * 10 ^ n - 1"
proof (induction n arbitrary: a)
  case 0
  then show ?case by simp
next
  case (Suc n)
  have "foldl (\<lambda>a c. a * 10 + (c - 48)) a (replicate (Suc n) 57)
      = foldl (\<lambda>a c. a * 10 + (c - 48)) (a * 10 + 9) (replicate n 57)" by simp
  also have "\<dots> = (a * 10 + 9 + 1) * 10 ^ n - 1" by (rule Suc)
  also have "(a * 10 + 9 + 1) * 10 ^ n = (a + 1) * 10 ^ Suc n" by (simp add: algebra_simps)
  finally show ?case .
qed

lemma double_of_str_overflow: "double_of_str (replicate 400 57) = Infinity False"
proof -
  have t: "takeWhile (\<lambda>c. c \<noteq> 46) (replicate 400 (57::nat)) = replicate 400 57"
    by (simp add: takeWhile_eq_all_conv)
  have d: "dropWhile (\<lambda>c. c \<noteq> 46) (replicate 400 (57::nat)) = []"
    by simp
  have "(2::nat) ^ 1024 \<le> (0 + 1) * 10 ^ 400 - 1" by simp
  then show ?thesis
    by (simp only: double_of_str_def Let_def t d filter.simps append_Nil2 digits_value_nines
        list.size power_0 double_of_ratio_overflow)
qed


section \<open>A report with a duration of 400 digits\<close>

lemma double_lib_simps:
  "uni_alnum double_lib = (\<lambda>c. False)" "uni_decimal double_lib = (\<lambda>c. False)"
  "float_of_str double_lib = double_of_str"
  "py_sum double_lib = (\<lambda>xs. foldl double_add_num (PInt 0) xs)"
  "truediv double_lib = double_truediv" "format_1f double_lib = double_format_1f"
  "json_loads double_lib = (\<lambda>s. None)" "markdown double_lib = (\<lambda>s. None)"
  by (simp_all add: double_lib_def)

lemma rmatch_star_greedy_run:
  "list_all c g \<Longrightarrow> \<forall>y ys. r = y # ys \<longrightarrow> \<not> c y \<Longrightarrow> rmatch p r = Some (gs, r') \<Longrightarrow>
     rmatch (Star Greedy c # p) (g @ r) = Some (g # gs, r')"
proof (induction g)
  case Nil
  then show ?case by (cases r) simp_all
next
  case (Cons x g)
  then show ?case by simp
qed

lemma rmatch_plus_greedy_run:
  "g \<noteq> [] \<Longrightarrow> list_all c g \<Longrightarrow> \<forall>y ys. r = y # ys \<longrightarrow> \<not> c y \<Longrightarrow> rmatch p r = Some (gs, r') \<Longrightarrow>
     rmatch (Plus Greedy c # p) (g @ r) = Some (g # gs, r')"
  by (cases g) (simp_all add: rmatch_star_greedy_run)

lemma rmatch_overflow_duration:
  "rmatch [Plus Greedy (digit_or_dot double_lib), Lit [115], Star Lazy any_char,
           Lit [82, 101, 115, 117, 108, 116, 58, 32], Plus Greedy (is_word double_lib)]
     (replicate 400 57 @ [115, 10, 82, 101, 115, 117, 108, 116, 58, 32, 83, 85, 67, 67, 69, 83, 83])
   = Some ([replicate 400 57, [115], [10], [82, 101, 115, 117, 108, 116, 58, 32],
            [83, 85, 67, 67, 69, 83, 83]], [])"
proof (rule rmatch_plus_greedy_run)
  show "replicate 400 (57::nat) \<noteq> []" by simp
  show "list_all (digit_or_dot double_lib) (replicate 400 57)"
    by (simp add: list_all_iff class_defs)
  show "\<forall>y ys. [115, 10, 82, 101, 115, 117, 108, 116, 58, 32, 83, 85, 67, 67, 69, 83, 83] = y # ys
      \<longrightarrow> \<not> digit_or_dot double_lib y"
    by (simp add: class_defs)
  show "rmatch [Lit [115], Star Lazy any_char, Lit [82, 101, 115, 117, 108, 116, 58, 32],
                Plus Greedy (is_word double_lib)]
          [115, 10, 82, 101, 115, 117, 108, 116, 58, 32, 83, 85, 67, 67, 69, 83, 83]
        = Some ([[115], [10], [82, 101, 115, 117, 108, 116, 58, 32], [83, 85, 67, 67, 69, 83, 83]], [])"
    by (simp add: class_defs)
qed

lemma float_accepts_nines: "float_accepts double_lib (replicate 400 57)"
  by (simp add: float_accepts_def list_ex_iff is_digit_def)

lemma finditer_overflow:
  "finditer (step_pattern double_lib) overflow_text
     = [([], [u ''STEP: '', u ''a'', [10], [], u ''Duration: '', replicate 400 57, u ''s'', [10],
              u ''Result: '', u ''SUCCESS''])]"
  by (simp add: finditer.simps step_pattern_def overflow_text_def u_simps any_char_def
      rmatch_overflow_duration)

lemma extract_overflow: "extract_test_info double_lib overflow_text = Inr overflow_info"
proof -
  have s: "35 \<notin> set overflow_text" "124 \<notin> set overflow_text" "42 \<notin> set overflow_text"
    "96 \<notin> set overflow_text"
    by (simp_all add: overflow_text_def u_simps)
  show ?thesis
    using s
    by (simp add: extract_test_info_def extract_final_output_def extract_activity_details_def
        extract_user_request_def extract_model_def extract_title_def title_pattern_def
        config_pattern_def request_pattern_def json_pattern_def final_output_pattern_def
        fallback_pattern_def u_simps re_search_lit_absent finditer_overflow step_of_match_def
        match_group_def float_accepts_nines double_of_str_overflow double_lib_simps
        overflow_info_def empty_info_def double_of_ratio_def)
qed


section \<open>The rows of the table of steps\<close>

lemma step_rows_html:
  assumes "generate_test_html L now test md = Inr page"
  shows "\<exists>before. page = before @ steps_html_head
           @ concat (map (\<lambda>step.
               step_row_0 @ step_name step
               @ step_row_1 @ format_1f L (step_duration step)
               @ step_row_2
               @ (if step_status step = u ''SUCCESS''
                  then u ''badge-success'' @ step_row_3 @ [1492, 1510, 1500, 1495, 1492]
                  else u ''badge-danger'' @ step_row_3 @ [1499, 1513, 1500, 1493, 1503])
               @ step_row_4)
              (case steps test of Some ss \<Rightarrow> ss | None \<Rightarrow> []))
           @ u ''</tbody></table>''
           @ test_content_9 @ duration_minutes_1f L test
           @ test_content_10 @ final_output_html L test
           @ test_content_11 @ HTML_TEMPLATE_2 @ strftime_dmy now @ HTML_TEMPLATE_3"
proof -
  from generate_test_html_page [OF assms] obtain a g v where
    p: "page = HTML_TEMPLATE_format (display_name test) (test_content L test a g v) (strftime_dmy now)"
    by blast
  have row: "step_row L = (\<lambda>step.
               step_row_0 @ step_name step
               @ step_row_1 @ format_1f L (step_duration step)
               @ step_row_2
               @ (if step_status step = u ''SUCCESS''
                  then u ''badge-success'' @ step_row_3 @ [1492, 1510, 1500, 1495, 1492]
                  else u ''badge-danger'' @ step_row_3 @ [1499, 1513, 1500, 1493, 1503])
               @ step_row_4)"
    by (rule ext) (simp add: step_row_def status_badge_def status_text_def)
  have sh: "steps_html L test = steps_html_head
      @ concat (map (step_row L) (case steps test of Some ss \<Rightarrow> ss | None \<Rightarrow> []))
      @ u ''</tbody></table>''"
    by (simp add: steps_html_def foldl_append_rows)
  have "\<exists>before. page = before @ steps_html L test
           @ test_content_9 @ duration_minutes_1f L test
           @ test_content_10 @ final_output_html L test
           @ test_content_11 @ HTML_TEMPLATE_2 @ strftime_dmy now @ HTML_TEMPLATE_3"
    unfolding p HTML_TEMPLATE_format_def test_content_def Let_def
    by (simp only: append_assoc [symmetric] append_same_eq) blast
  then show ?thesis by (simp only: sh row append_assoc)
qed

lemma generate_test_html_plain:
  "activity_details test = None \<Longrightarrow>
     generate_test_html L now test md =
       Inr (HTML_TEMPLATE_format (display_name test) (test_content L test [] [] []) (strftime_dmy now))"
  by (simp add: render_defs ACTIVITY_TYPES_HEB_def AGE_GROUPS_HEB_def u_simps)


section \<open>The status of a record\<close>

text \<open>
  The status compares the number of characters of the decoded text with 10000; the number
  of characters is the number of bytes on ASCII files without carriage returns only.
\<close>

lemma status_of_read_record:
  assumes "read_record L f = Inr (info, md)"
  shows "read_text (snd f) = Inr md
       \<and> (status info = Some (u ''PASS'') \<longleftrightarrow> 10000 < length md)
       \<and> (status info = Some (u ''FAIL'') \<longleftrightarrow> length md \<le> 10000)
       \<and> ((\<forall>b \<in> set (snd f). unat b < 128 \<and> unat b \<noteq> 13) \<longrightarrow> length md = length (snd f))"
proof -
  from assms obtain i where r: "read_text (snd f) = Inr md"
    and s: "status info = Some (derive_status md)"
    by (auto simp: read_record_def split: sum.splits)
  have ne: "u ''PASS'' \<noteq> u ''FAIL''" by (simp add: u_simps)
  have "length md = length (snd f)" if a: "\<forall>b \<in> set (snd f). unat b < 128 \<and> unat b \<noteq> 13"
  proof -
    from a have d: "utf8_decode (snd f) = Some (map unat (snd f))"
      by (simp add: utf8_decode_ascii)
    from a have "13 \<notin> set (map unat (snd f))" by auto
    with r d have "md = map unat (snd f)"
      by (simp add: read_text_def translate_newlines_no_cr)
    then show ?thesis by simp
  qed
  with r s ne show ?thesis by (auto simp: derive_status_def)
qed

section \<open>The claims\<close>

text \<open>
  C7.  When the text has a title line, that is, it is \<open>pre\<close>, the words
  \<^verbatim>\<open># E2E Test Report: \<close>, a non-empty run \<open>tok\<close> of word characters that ends where the run
  ends, and \<open>rest\<close>, and the title pattern matches nowhere before, then a record that the
  extractor returns has \<open>tok\<close> as its identifier, and its label is the entry of
  \<open>TEST_NAMES_HEB\<close> for \<open>tok\<close> when \<open>tok\<close> is a key of the table and \<open>tok\<close> itself
  otherwise.
\<close>

theorem title_identifier_and_label:
  assumes "extract_test_info L md = Inr info"
    and "md = pre @ u ''# E2E Test Report: '' @ tok @ rest"
    and "tok \<noteq> []" and "list_all (is_word L) tok"
    and "\<forall>c cs. rest = c # cs \<longrightarrow> \<not> is_word L c"
    and "\<forall>i < length pre. \<not> matches_at (title_pattern L) md i"
  shows "name info = Some tok
       \<and> name_heb info = Some (case map_of TEST_NAMES_HEB tok of Some heb \<Rightarrow> heb | None \<Rightarrow> tok)"
proof -
  let ?l = "u ''# E2E Test Report: ''"
  have "rmatch (title_pattern L) (?l @ tok @ rest) = Some ([?l, tok], rest)"
    using rmatch_plus_greedy_last [OF assms(3,4,5)] by (simp add: title_pattern_def)
  from re_search_first [OF this, of pre] assms(2,6)
  have "re_search (title_pattern L) md = Some (pre, [?l, tok], rest)" by simp
  then have "name (extract_title L md empty_info) = Some tok"
    "name_heb (extract_title L md empty_info)
       = Some (case map_of TEST_NAMES_HEB tok of Some heb \<Rightarrow> heb | None \<Rightarrow> tok)"
    by (simp_all add: extract_title_def match_group_def split: option.splits)
  with extract_name [OF assms(1)] show ?thesis by simp
qed

text \<open>The theorem at a text whose title line comes second; the identifier is a key of the table.\<close>

theorem title_identifier_and_label_witness:
  "extract_test_info demo_lib titled_text = Inr titled_info
   \<and> titled_text = u ''x\<newline>'' @ u ''# E2E Test Report: '' @ u ''Teamwork_Games'' @ u ''!''
   \<and> u ''Teamwork_Games'' \<noteq> []
   \<and> list_all (is_word demo_lib) (u ''Teamwork_Games'')
   \<and> name titled_info = Some (u ''Teamwork_Games'')
   \<and> name_heb titled_info
       = Some (case map_of TEST_NAMES_HEB (u ''Teamwork_Games'') of
                 Some heb \<Rightarrow> heb | None \<Rightarrow> u ''Teamwork_Games'')"
proof -
  have h1: "extract_test_info demo_lib titled_text = Inr titled_info"
    by (simp add: extract_defs finditer.simps u_simps class_defs TEST_NAMES_HEB_def
        empty_info_def demo_lib_def titled_text_def titled_info_def)
  have h2: "titled_text = u ''x\<newline>'' @ u ''# E2E Test Report: '' @ u ''Teamwork_Games'' @ u ''!''"
    by (simp add: u_simps titled_text_def)
  have h3: "u ''Teamwork_Games'' \<noteq> []" by (simp add: u_simps)
  have h4: "list_all (is_word demo_lib) (u ''Teamwork_Games'')"
    by (simp add: u_simps class_defs)
  have h5: "\<forall>c cs. u ''!'' = c # cs \<longrightarrow> \<not> is_word demo_lib c"
    by (simp add: u_simps class_defs)
  have h6: "\<forall>i < length (u ''x\<newline>''). \<not> matches_at (title_pattern demo_lib) titled_text i"
    by (simp add: u_simps class_defs matches_at_def title_pattern_def less_Suc_eq titled_text_def)
  note c = title_identifier_and_label [OF h1 h2 h3 h4 h5 h6]
  show ?thesis
    by (intro conjI) (rule h1 h2 h3 h4 conjunct1 [OF c] conjunct2 [OF c])+
qed

text \<open>
  C3.  The extractor does propagate an exception: a duration token with two dots matches
  \<^verbatim>\<open>[\d.]+\<close>, and \<^verbatim>\<open>float\<close> raises \<^verbatim>\<open>ValueError\<close> on it outside any \<^verbatim>\<open>try\<close>.
\<close>

theorem extract_raises_on_malformed_duration:
  "extract_test_info L (u ''STEP: a\<newline>Duration: 1.2.3s\<newline>Result: OK'') = Inl ValueError"
  by (simp add: extract_defs finditer.simps u_simps class_defs)




text \<open>
  C5, as the code has it.  The steps of a record that the extractor returns are the
  matches that scanning from left to right finds, each search starting where the match
  before it ended: one step for each such match, in order, with the name, the duration
  (a text that \<^verbatim>\<open>float\<close> accepts, converted by it) and the status that the match captured.
  Each of these matches is a match of the step pattern in the text, the matches do not
  overlap, and every offset at which the pattern matches lies in one of them: an entry
  that starts inside an earlier match gives no step of its own.
\<close>

theorem steps_are_the_successive_matches:
  assumes "extract_test_info L md = Inr info"
  shows "steps info
           = Some (map (\<lambda>(a, b, gs). \<lparr> step_name = match_group gs 1 2,
                                        step_duration = float_of_str L (match_group gs 5 6),
                                        step_status = match_group gs 9 10 \<rparr>)
                      (locate 0 (finditer (step_pattern L) md)))
       \<and> (\<forall>(a, b, gs) \<in> set (locate 0 (finditer (step_pattern L) md)).
             a < b \<and> b \<le> length md \<and> concat gs = take (b - a) (drop a md)
             \<and> segs_ok (step_pattern L) gs (drop b md)
             \<and> float_accepts L (match_group gs 5 6))
       \<and> sorted_wrt (\<lambda>x y. fst (snd x) \<le> fst y) (locate 0 (finditer (step_pattern L) md))
       \<and> (\<forall>i. matches_at (step_pattern L) md i \<longrightarrow>
             (\<exists>(a, b, gs) \<in> set (locate 0 (finditer (step_pattern L) md)). a \<le> i \<and> i < b))"
proof -
  let ?ms = "locate 0 (finditer (step_pattern L) md)"
  from extract_steps [OF assms] obtain ss where
    c: "collect_steps L [] (finditer (step_pattern L) md) = Inr ss"
    and s: "steps info = Some ss"
    by blast
  from collect_steps_Inr [OF c]
  have m: "ss = map (\<lambda>(a, b, gs). \<lparr> step_name = match_group gs 1 2,
                                    step_duration = float_of_str L (match_group gs 5 6),
                                    step_status = match_group gs 9 10 \<rparr>) ?ms"
    and fl: "list_all (\<lambda>m. float_accepts L (match_group (snd m) 5 6)) (finditer (step_pattern L) md)"
    by (simp_all add: locate_map)
  from fl have F: "\<forall>(a, b, gs) \<in> set ?ms. float_accepts L (match_group gs 5 6)"
    by (simp only: locate_groups [of "\<lambda>gs. float_accepts L (match_group gs 5 6)", symmetric])
  from finditer_located [OF consuming_step_pattern [of L], of 0 md]
  have A: "\<forall>(a, b, gs) \<in> set ?ms. a < b \<and> b \<le> length md
            \<and> rmatch (step_pattern L) (drop a md) = Some (gs, drop b md)
            \<and> concat gs = take (b - a) (drop a md)"
    and B: "sorted_wrt (\<lambda>x y. fst (snd x) \<le> fst y) ?ms"
    and C: "\<forall>i. matches_at (step_pattern L) md i \<longrightarrow> (\<exists>(a, b, gs) \<in> set ?ms. a \<le> i \<and> i < b)"
    by auto
  have A': "\<forall>(a, b, gs) \<in> set ?ms. a < b \<and> b \<le> length md
            \<and> concat gs = take (b - a) (drop a md)
            \<and> segs_ok (step_pattern L) gs (drop b md)
            \<and> float_accepts L (match_group gs 5 6)"
    using A F by (auto dest: rmatch_sound)
  from s m A' B C show ?thesis by (simp only: simp_thms)
qed

text \<open>The theorem at the report of two steps.\<close>

theorem steps_are_the_successive_matches_witness:
  "extract_test_info demo_lib two_step_text = Inr two_step_extracted
   \<and> steps two_step_extracted
       = Some (map (\<lambda>(a, b, gs). \<lparr> step_name = match_group gs 1 2,
                                    step_duration = float_of_str demo_lib (match_group gs 5 6),
                                    step_status = match_group gs 9 10 \<rparr>)
                  (locate 0 (finditer (step_pattern demo_lib) two_step_text)))
   \<and> sorted_wrt (\<lambda>x y. fst (snd x) \<le> fst y)
         (locate 0 (finditer (step_pattern demo_lib) two_step_text))"
proof -
  have h: "extract_test_info demo_lib two_step_text = Inr two_step_extracted"
    by (simp add: extract_defs finditer.simps u_simps class_defs two_step_text_def
        two_step_extracted_def empty_info_def demo_lib_def decimal_value_def)
  note c = steps_are_the_successive_matches [OF h]
  show ?thesis
    by (intro conjI) (rule h conjunct1 [OF c] conjunct1 [OF conjunct2 [OF conjunct2 [OF c]]])+
qed

text \<open>
  C5 as stated fails: the step pattern matches at the offsets 0 and 8 of a text in which
  two step entries are followed by one duration and one result, and the record has one
  step.
\<close>

theorem overlapping_step_entry_is_not_captured:
  "matches_at (step_pattern demo_lib) overlap_text 0
   \<and> matches_at (step_pattern demo_lib) overlap_text 8
   \<and> extract_test_info demo_lib overlap_text
       = Inr (empty_info \<lparr> steps := Some [\<lparr> step_name = u ''a'', step_duration = 1,
                                                step_status = u ''OK'' \<rparr>],
                             total_duration := Some (PFloat 1) \<rparr>)"
  by (simp add: extract_defs finditer.simps u_simps class_defs overlap_text_def
        empty_info_def demo_lib_def decimal_value_def matches_at_def)






text \<open>
  C9, as the code has it.  On a detail page that is generated the table of steps has one
  row for each step of the record, in order.  A row shows the name, the duration in the
  format \<^verbatim>\<open>.1f\<close> of a float and one of two badges: the success badge when the status of
  the step is \<^verbatim>\<open>SUCCESS\<close>, the failure badge for every other status.  The format shows a
  finite duration with one decimal place, an optional minus sign, digits, a dot and one
  digit; it shows an infinite duration as \<^verbatim>\<open>inf\<close> or \<^verbatim>\<open>-inf\<close> and a NaN as \<^verbatim>\<open>nan\<close>,
  none of which has a decimal place.
\<close>

theorem step_rows_badges_and_duration:
  assumes "generate_test_html L now test md = Inr page"
    and "format_1f L = double_format_1f"
  shows "(\<exists>before. page = before @ steps_html_head
           @ concat (map (\<lambda>step.
               step_row_0 @ step_name step
               @ step_row_1 @ double_format_1f (step_duration step)
               @ step_row_2
               @ (if step_status step = u ''SUCCESS''
                  then u ''badge-success'' @ step_row_3 @ [1492, 1510, 1500, 1495, 1492]
                  else u ''badge-danger'' @ step_row_3 @ [1499, 1513, 1500, 1493, 1503])
               @ step_row_4)
              (case steps test of Some ss \<Rightarrow> ss | None \<Rightarrow> []))
           @ u ''</tbody></table>''
           @ test_content_9 @ duration_minutes_1f L test
           @ test_content_10 @ final_output_html L test
           @ test_content_11 @ HTML_TEMPLATE_2 @ strftime_dmy now @ HTML_TEMPLATE_3)
       \<and> (\<forall>sg m e. one_decimal_place (double_format_1f (Finite sg m e)))
       \<and> (\<forall>sg. double_format_1f (Infinity sg) = (if sg then u ''-inf'' else u ''inf''))
       \<and> double_format_1f NaN = u ''nan''
       \<and> \<not> one_decimal_place (u ''inf'') \<and> \<not> one_decimal_place (u ''-inf'')
       \<and> \<not> one_decimal_place (u ''nan'')"
proof -
  note r = step_rows_html [OF assms(1), unfolded assms(2)]
  show ?thesis
    by (intro conjI allI)
      (rule r one_decimal_place_finite double_format_1f_other not_one_decimal_place)+
qed

text \<open>
  The theorem at a record with a successful step of 1.5 seconds and a failed step of 2.5
  seconds.
\<close>

theorem step_rows_badges_and_duration_witness:
  "generate_test_html double_lib demo_now two_step_doubles [] =
     Inr (HTML_TEMPLATE_format (u ''Unknown'') (test_content double_lib two_step_doubles [] [] [])
            (strftime_dmy demo_now))
   \<and> format_1f double_lib = double_format_1f
   \<and> (\<exists>before. HTML_TEMPLATE_format (u ''Unknown'') (test_content double_lib two_step_doubles [] [] [])
            (strftime_dmy demo_now)
         = before @ steps_html_head
           @ (step_row_0 @ u ''plan'' @ step_row_1 @ u ''1.5'' @ step_row_2
              @ u ''badge-success'' @ step_row_3 @ [1492, 1510, 1500, 1495, 1492] @ step_row_4)
           @ (step_row_0 @ u ''write'' @ step_row_1 @ u ''2.5'' @ step_row_2
              @ u ''badge-danger'' @ step_row_3 @ [1499, 1513, 1500, 1493, 1503] @ step_row_4)
           @ u ''</tbody></table>''
           @ test_content_9 @ duration_minutes_1f double_lib two_step_doubles
           @ test_content_10 @ final_output_html double_lib two_step_doubles
           @ test_content_11 @ HTML_TEMPLATE_2 @ strftime_dmy demo_now @ HTML_TEMPLATE_3)
   \<and> one_decimal_place (u ''1.5'') \<and> one_decimal_place (u ''2.5'')"
proof -
  have h: "generate_test_html double_lib demo_now two_step_doubles [] =
     Inr (HTML_TEMPLATE_format (u ''Unknown'') (test_content double_lib two_step_doubles [] [] [])
            (strftime_dmy demo_now))"
    by (simp add: generate_test_html_plain two_step_doubles_def empty_info_def display_name_def)
  have f: "format_1f double_lib = double_format_1f" by (rule double_lib_simps)
  have f1: "double_format_1f (Finite False 3 (- 1)) = u ''1.5''"
    "double_format_1f (Finite False 5 (- 1)) = u ''2.5''"
    by (simp_all add: double_format_1f_def rdiv_def str_nat.simps u_simps Let_def)
  have ne: "u ''FAILED'' \<noteq> u ''SUCCESS''" by (simp add: u_simps)
  have s: "steps two_step_doubles =
     Some [\<lparr> step_name = u ''plan'', step_duration = Finite False 3 (- 1), step_status = u ''SUCCESS'' \<rparr>,
           \<lparr> step_name = u ''write'', step_duration = Finite False 5 (- 1), step_status = u ''FAILED'' \<rparr>]"
    by (simp add: two_step_doubles_def empty_info_def)
  note c = step_rows_badges_and_duration [OF h f]
  from conjunct1 [OF c]
  have p: "\<exists>before. HTML_TEMPLATE_format (u ''Unknown'') (test_content double_lib two_step_doubles [] [] [])
            (strftime_dmy demo_now)
         = before @ steps_html_head
           @ (step_row_0 @ u ''plan'' @ step_row_1 @ u ''1.5'' @ step_row_2
              @ u ''badge-success'' @ step_row_3 @ [1492, 1510, 1500, 1495, 1492] @ step_row_4)
           @ (step_row_0 @ u ''write'' @ step_row_1 @ u ''2.5'' @ step_row_2
              @ u ''badge-danger'' @ step_row_3 @ [1499, 1513, 1500, 1493, 1503] @ step_row_4)
           @ u ''</tbody></table>''
           @ test_content_9 @ duration_minutes_1f double_lib two_step_doubles
           @ test_content_10 @ final_output_html double_lib two_step_doubles
           @ test_content_11 @ HTML_TEMPLATE_2 @ strftime_dmy demo_now @ HTML_TEMPLATE_3"
    by (simp add: s f1 ne)
  from conjunct1 [OF conjunct2 [OF c]]
  have o: "one_decimal_place (u ''1.5'')" "one_decimal_place (u ''2.5'')"
    by (simp_all only: f1 [symmetric])
  show ?thesis by (intro conjI) (rule h f p o)+
qed


text \<open>
  C9 as stated fails: a duration token of 400 digits is beyond the range of the floats,
  \<^verbatim>\<open>float\<close> returns the infinity for it, and the row of the step shows \<^verbatim>\<open>inf\<close>, which has
  no decimal place.
\<close>

theorem duration_of_400_digits_shows_inf:
  "extract_test_info double_lib overflow_text = Inr overflow_info
   \<and> generate_test_html double_lib demo_now overflow_info overflow_text =
       Inr (HTML_TEMPLATE_format (u ''Unknown'') (test_content double_lib overflow_info [] [] [])
              (strftime_dmy demo_now))
   \<and> (\<exists>before. HTML_TEMPLATE_format (u ''Unknown'') (test_content double_lib overflow_info [] [] [])
            (strftime_dmy demo_now)
         = before @ steps_html_head
           @ (step_row_0 @ u ''a'' @ step_row_1 @ u ''inf'' @ step_row_2
              @ u ''badge-success'' @ step_row_3 @ [1492, 1510, 1500, 1495, 1492] @ step_row_4)
           @ u ''</tbody></table>''
           @ test_content_9 @ duration_minutes_1f double_lib overflow_info
           @ test_content_10 @ final_output_html double_lib overflow_info
           @ test_content_11 @ HTML_TEMPLATE_2 @ strftime_dmy demo_now @ HTML_TEMPLATE_3)
   \<and> \<not> one_decimal_place (u ''inf'')"
proof -
  have h: "generate_test_html double_lib demo_now overflow_info overflow_text =
       Inr (HTML_TEMPLATE_format (u ''Unknown'') (test_content double_lib overflow_info [] [] [])
              (strftime_dmy demo_now))"
    by (simp add: generate_test_html_plain overflow_info_def empty_info_def display_name_def)
  have s: "steps overflow_info =
     Some [\<lparr> step_name = u ''a'', step_duration = Infinity False, step_status = u ''SUCCESS'' \<rparr>]"
    by (simp add: overflow_info_def empty_info_def)
  from step_rows_html [OF h]
  have p: "\<exists>before. HTML_TEMPLATE_format (u ''Unknown'') (test_content double_lib overflow_info [] [] [])
            (strftime_dmy demo_now)
         = before @ steps_html_head
           @ (step_row_0 @ u ''a'' @ step_row_1 @ u ''inf'' @ step_row_2
              @ u ''badge-success'' @ step_row_3 @ [1492, 1510, 1500, 1495, 1492] @ step_row_4)
           @ u ''</tbody></table>''
           @ test_content_9 @ duration_minutes_1f double_lib overflow_info
           @ test_content_10 @ final_output_html double_lib overflow_info
           @ test_content_11 @ HTML_TEMPLATE_2 @ strftime_dmy demo_now @ HTML_TEMPLATE_3"
    by (simp add: s double_lib_simps double_format_1f_other)
  show ?thesis
    by (intro conjI) (rule extract_overflow h p not_one_decimal_place)+
qed


text \<open>
  C10.  On a detail page that is generated the block of the final output is the
  placeholder paragraph, which is not empty, when the record has no final output or an
  empty one; otherwise it is what the markdown conversion returns, and the text itself
  between \<^verbatim>\<open><pre>\<close> tags only when the conversion raises.
\<close>

theorem detail_page_final_output_block:
  assumes "generate_test_html L now test md = Inr page"
  shows "(\<exists>before. page = HTML_TEMPLATE_0 @ display_name test @ HTML_TEMPLATE_1 @ before
           @ test_content_10
           @ (case final_output test of
                None \<Rightarrow> no_final_output
              | Some fo \<Rightarrow>
                  if fo = [] then no_final_output
                  else (case markdown L fo of
                          Some html \<Rightarrow> html
                        | None \<Rightarrow> u ''<pre>'' @ fo @ u ''</pre>''))
           @ test_content_11 @ HTML_TEMPLATE_2 @ strftime_dmy now @ HTML_TEMPLATE_3)
       \<and> no_final_output \<noteq> []"
proof -
  from generate_test_html_page [OF assms] obtain a g v where
    p: "page = HTML_TEMPLATE_format (display_name test) (test_content L test a g v) (strftime_dmy now)"
    by blast
  have fo: "final_output_html L test = (case final_output test of
                None \<Rightarrow> no_final_output
              | Some fo \<Rightarrow>
                  if fo = [] then no_final_output
                  else (case markdown L fo of
                          Some html \<Rightarrow> html
                        | None \<Rightarrow> u ''<pre>'' @ fo @ u ''</pre>''))"
    by (simp add: final_output_html_def Let_def split: option.splits)
  have "\<exists>before. page = HTML_TEMPLATE_0 @ display_name test @ HTML_TEMPLATE_1 @ before
           @ test_content_10 @ final_output_html L test
           @ test_content_11 @ HTML_TEMPLATE_2 @ strftime_dmy now @ HTML_TEMPLATE_3"
    unfolding p HTML_TEMPLATE_format_def test_content_def Let_def
    by (simp only: append_assoc [symmetric] append_same_eq) (simp only: append_assoc, blast)
  moreover have "no_final_output \<noteq> []"
    by (simp add: no_final_output_def u_def)
  ultimately show ?thesis by (simp only: fo) simp
qed

text \<open>The theorem at a record whose final output is the empty text.\<close>

theorem detail_page_final_output_block_witness:
  "generate_test_html demo_lib demo_now two_step_info [] =
     Inr (HTML_TEMPLATE_format (u ''Sample_Test'') (test_content demo_lib two_step_info [] [] [])
            (strftime_dmy demo_now))
   \<and> final_output two_step_info = Some []
   \<and> (\<exists>before. HTML_TEMPLATE_format (u ''Sample_Test'') (test_content demo_lib two_step_info [] [] [])
            (strftime_dmy demo_now)
         = HTML_TEMPLATE_0 @ u ''Sample_Test'' @ HTML_TEMPLATE_1 @ before
           @ test_content_10 @ no_final_output
           @ test_content_11 @ HTML_TEMPLATE_2 @ strftime_dmy demo_now @ HTML_TEMPLATE_3)"
proof -
  have f: "final_output two_step_info = Some []"
    by (simp add: two_step_info_def empty_info_def)
  have d: "display_name two_step_info = u ''Sample_Test''"
    by (simp add: two_step_info_def empty_info_def display_name_def)
  from detail_page_final_output_block [OF generate_test_html_two_step]
  show ?thesis
    by (simp only: f d generate_test_html_two_step option.case if_True simp_thms)
qed




text \<open>
  C1.  The code misses the claim, and its own comment, which derives the status from the
  size of the file: it compares the number of characters of the decoded text with 10000.
  Of two files of 12000 bytes, more than the threshold, the one that holds 6000 Hebrew
  letters has the status \<^verbatim>\<open>FAIL\<close> and the one that holds 12000 ASCII letters has the
  status \<^verbatim>\<open>PASS\<close>.
\<close>

theorem twelve_thousand_bytes_fail:
  "length alef_file = 12000
   \<and> read_record demo_lib (u ''test_01'', alef_file)
       = Inr (blank_info \<lparr> filename := Some (u ''test_01''), status := Some (u ''FAIL'') \<rparr>,
              replicate 6000 1488)
   \<and> length ascii_file = 12000
   \<and> read_record demo_lib (u ''test_02'', ascii_file)
       = Inr (blank_info \<lparr> filename := Some (u ''test_02''), status := Some (u ''PASS'') \<rparr>,
              replicate 12000 120)"
proof -
  have l: "length alef_file = 12000"
    by (simp add: alef_file_def length_concat sum_list_replicate)
  have t: "read_text alef_file = Inr (replicate 6000 1488)"
    by (simp add: read_text_def alef_file_def utf8_decode_alef translate_newlines_no_cr)
  have a: "read_record demo_lib (u ''test_01'', alef_file)
       = Inr (blank_info \<lparr> filename := Some (u ''test_01''), status := Some (u ''FAIL'') \<rparr>,
              replicate 6000 1488)"
    by (simp add: read_record_def t extract_no_pattern derive_status_def blank_info_def)
  have l': "length ascii_file = 12000" by (simp add: ascii_file_def)
  have t': "read_text ascii_file = Inr (replicate 12000 120)"
    by (simp add: read_text_def ascii_file_def utf8_decode_x translate_newlines_no_cr)
  have b: "read_record demo_lib (u ''test_02'', ascii_file)
       = Inr (blank_info \<lparr> filename := Some (u ''test_02''), status := Some (u ''PASS'') \<rparr>,
              replicate 12000 120)"
    by (simp add: read_record_def t' extract_no_pattern derive_status_def blank_info_def)
  show ?thesis by (intro conjI) (rule l a l' b)+
qed


text \<open>
  C4, as the code has it.  The pages that a run writes are a function of the input files
  and of the dates that the clock shows when the pages are generated: two runs on the
  same files write the same pages when, at every page, the clocks of the two runs show
  the same day, month and year.
\<close>

theorem pages_are_a_function_of_files_and_dates:
  assumes "\<forall>k \<le> length files. strftime_dmy (clock1 k) = strftime_dmy (clock2 k)"
  shows "main L clock1 files = main L clock2 files"
  unfolding main_def using assms by (intro main_loop_date) simp

text \<open>The theorem at two runs on one file, in the night and at noon of the same day.\<close>

theorem pages_are_a_function_of_files_and_dates_witness:
  "main demo_lib clock_27 [(u ''test_01'', x_file)] = main demo_lib clock_27_noon [(u ''test_01'', x_file)]"
proof -
  have "\<forall>k \<le> length [(u ''test_01'', x_file)]. strftime_dmy (clock_27 k) = strftime_dmy (clock_27_noon k)"
    by (simp add: clock_27_def clock_27_noon_def strftime_demo)
  then show ?thesis by (rule pages_are_a_function_of_files_and_dates)
qed


text \<open>
  C4 as stated fails: two runs on the same input, here no file at all, on two days write
  different index pages, since the footer of a page shows the date of its generation.
\<close>

theorem pages_change_with_the_date:
  "main demo_lib clock_27 [] \<noteq> main demo_lib clock_28 []"
proof -
  have "u ''27/11/2025'' \<noteq> u ''28/11/2025''" by (simp add: u_simps)
  then show ?thesis
    by (simp add: main_empty [of clock_27 "''27/11/2025''"] main_empty [of clock_28 "''28/11/2025''"]
        clock_27_def clock_28_def strftime_demo HTML_TEMPLATE_format_date)
qed


text \<open>
  C8.  The code misses the claim where the section is empty.  When the heading of the next
  section follows the blank line after \<^verbatim>\<open>## Final Output\<close> at once, the final output is
  not the empty text up to that heading but the text from that heading on; and the
  content of an empty fenced block is not the empty text but the two fences.
\<close>

theorem final_output_runs_past_the_next_heading:
  "map_sum id final_output
     (extract_test_info L (u ''## Final Output\<newline>\<newline>\<newline>## Next\<newline>foo''))
     = Inr (Some (u ''## Next\<newline>foo''))
   \<and> map_sum id final_output
     (extract_test_info L (u ''## Final Output\<newline>\<newline>```markdown\<newline>```\<newline>''))
     = Inr (Some (u ''```markdown\<newline>```''))"
  by (simp add: extract_defs finditer.simps u_simps class_defs)

end
